theory Spec2Isabelle
  imports Main
begin

section \<open>Strings\<close>

text \<open>
  JavaScript strings are modelled as lists of 8-bit characters: the model covers the
  strings whose code units lie below 256 (Latin-1).  The case mapping and the white-space
  class are the ones of ECMAScript restricted to that range.
\<close>

definition upper_chars :: string where
  "upper_chars =
     ''ABCDEFGHIJKLMNOPQRSTUVWXYZ'' @
       [CHR 0xC0, CHR 0xC1, CHR 0xC2, CHR 0xC3, CHR 0xC4, CHR 0xC5, CHR 0xC6, CHR 0xC7,
        CHR 0xC8, CHR 0xC9, CHR 0xCA, CHR 0xCB, CHR 0xCC, CHR 0xCD, CHR 0xCE, CHR 0xCF,
        CHR 0xD0, CHR 0xD1, CHR 0xD2, CHR 0xD3, CHR 0xD4, CHR 0xD5, CHR 0xD6, CHR 0xD8,
        CHR 0xD9, CHR 0xDA, CHR 0xDB, CHR 0xDC, CHR 0xDD, CHR 0xDE]"

definition lower_chars :: string where
  "lower_chars =
     ''abcdefghijklmnopqrstuvwxyz'' @
       [CHR 0xE0, CHR 0xE1, CHR 0xE2, CHR 0xE3, CHR 0xE4, CHR 0xE5, CHR 0xE6, CHR 0xE7,
        CHR 0xE8, CHR 0xE9, CHR 0xEA, CHR 0xEB, CHR 0xEC, CHR 0xED, CHR 0xEE, CHR 0xEF,
        CHR 0xF0, CHR 0xF1, CHR 0xF2, CHR 0xF3, CHR 0xF4, CHR 0xF5, CHR 0xF6, CHR 0xF8,
        CHR 0xF9, CHR 0xFA, CHR 0xFB, CHR 0xFC, CHR 0xFD, CHR 0xFE]"

definition lower_char :: "char \<Rightarrow> char" where
  "lower_char c = (case map_of (zip upper_chars lower_chars) c of Some l \<Rightarrow> l | None \<Rightarrow> c)"

definition toLowerCase :: "string \<Rightarrow> string" where
  "toLowerCase s = map lower_char s"

definition is_space :: "char \<Rightarrow> bool" where
  "is_space c = (c \<in> set [CHR 0x09, CHR 0x0A, CHR 0x0B, CHR 0x0C, CHR 0x0D, CHR 0x20, CHR 0xA0])"

definition is_digit :: "char \<Rightarrow> bool" where
  "is_digit c = (c \<in> set ''0123456789'')"

definition is_alnum :: "char \<Rightarrow> bool" where
  "is_alnum c =
     (c \<in> set ''0123456789ABCDEFGHIJKLMNOPQRSTUVWXYZabcdefghijklmnopqrstuvwxyz'')"

fun startsWith :: "string \<Rightarrow> string \<Rightarrow> bool" where
  "startsWith s [] = True"
| "startsWith [] (p # ps) = False"
| "startsWith (c # s) (p # ps) = (c = p \<and> startsWith s ps)"

definition endsWith :: "string \<Rightarrow> string \<Rightarrow> bool" where
  "endsWith s p = startsWith (rev s) (rev p)"

fun str_includes :: "string \<Rightarrow> string \<Rightarrow> bool" where
  "str_includes [] p = (p = [])"
| "str_includes (c # s) p = (startsWith (c # s) p \<or> str_includes s p)"

text \<open>\<^verbatim>\<open>s.replace(pat, rep)\<close> with a string pattern: the first occurrence only.\<close>

fun replace_first :: "string \<Rightarrow> string \<Rightarrow> string \<Rightarrow> string" where
  "replace_first pat rep [] = (if pat = [] then rep else [])"
| "replace_first pat rep (c # s) =
     (if startsWith (c # s) pat then rep @ drop (length pat) (c # s)
      else c # replace_first pat rep s)"

text \<open>\<^verbatim>\<open>s.replace(/c/g, r)\<close> for a one-character pattern.\<close>

definition replace_char :: "char \<Rightarrow> string \<Rightarrow> string \<Rightarrow> string" where
  "replace_char c r s = concat (map (\<lambda>x. if x = c then r else [x]) s)"

definition trim :: "string \<Rightarrow> string" where
  "trim s = rev (dropWhile is_space (rev (dropWhile is_space s)))"

definition digit_char :: "nat \<Rightarrow> char" where
  "digit_char n = ''0123456789'' ! (n mod 10)"

fun show_nat :: "nat \<Rightarrow> string" where
  "show_nat n = (if n < 10 then [digit_char n] else show_nat (n div 10) @ [digit_char (n mod 10)])"

declare show_nat.simps [simp del]

definition show_int :: "int \<Rightarrow> string" where
  "show_int i = (if i < 0 then CHR ''-'' # show_nat (nat (- i)) else show_nat (nat i))"

text \<open>
  \<^verbatim>\<open>parseInt(s, 10)\<close>: leading white space, an optional sign, then the longest run of
  decimal digits; \<open>None\<close> is NaN.  The value is an exact integer here; JavaScript rounds
  beyond \<open>2^53\<close>.
\<close>

definition digits_value :: "string \<Rightarrow> int" where
  "digits_value ds =
     foldl (\<lambda>acc c. 10 * acc + int (length (takeWhile (\<lambda>d. d \<noteq> c) ''0123456789''))) 0 ds"

definition parseInt10 :: "string \<Rightarrow> int option" where
  "parseInt10 s =
     (let t = dropWhile is_space s;
          neg = (case t of c # _ \<Rightarrow> c = CHR ''-'' | [] \<Rightarrow> False);
          u = (case t of c # r \<Rightarrow> if c = CHR ''-'' \<or> c = CHR ''+'' then r else t | [] \<Rightarrow> t);
          ds = takeWhile is_digit u
      in if ds = [] then None
         else Some (if neg then - digits_value ds else digits_value ds))"

text \<open>\<^verbatim>\<open>parseInt(s.split('x')[0], 10) || 0\<close>\<close>

definition parseSize :: "string \<Rightarrow> int" where
  "parseSize sizes =
     (case parseInt10 (takeWhile (\<lambda>c. c \<noteq> CHR ''x'') sizes) of None \<Rightarrow> 0 | Some n \<Rightarrow> n)"

section \<open>The host environment\<close>

text \<open>
  The platform library is not part of the repository.  What the code asks of it is a
  parameter of the model: the URL parser (\<^verbatim>\<open>new URL(s)\<close> and \<^verbatim>\<open>new URL(rel, base)\<close>),
  \<^verbatim>\<open>JSON.parse\<close>, \<^verbatim>\<open>path.join\<close>, the network, the shell behind \<^verbatim>\<open>exec\<close>, the clock and
  the process environment.  The network answers a request with a reply, the same reply
  for the same request during one run; the shell runs a
  command on the file system and hands back the file system it leaves, with the error of
  a command that failed; \<open>fails\<close> names the file operations that the operating system
  refuses, with the error code.
\<close>

record url =
  protocol :: string
  hostname :: string
  port :: string
  pathname :: string
  search :: string
  href :: string

datatype json =
    JNull | JBool bool | JNum int | JStr string | JArr "json list" | JObj "(string \<times> json) list"

datatype error =
    HttpStatus nat
  | RequestTimedOut
  | NetError string
  | InvalidURL
  | TypeError string
  | IOError string
  | ExecError string
  | Failure string

datatype node = File string | Dir

type_synonym fs = "(string \<times> node) list"

datatype fsop =
    OpMkdir string | OpWrite string | OpChmod string | OpCopy string string
  | OpRename string string | OpStat string | OpReaddir string | OpRead string
  | OpRm string | OpUnlink string

record request =
  req_https :: bool
  req_hostname :: string
  req_port :: string
  req_path :: string
  req_accept :: string

datatype reply =
    TimedOut
  | ConnError string
  | Reply nat "string option" "string option" "string + string"

record env =
  platform :: string
  env_HOME :: "string option"
  env_USERPROFILE :: "string option"
  env_APPDATA :: "string option"
  env_TEMP :: "string option"
  now :: nat
  parseURL :: "string \<Rightarrow> url option"
  resolveURL :: "string \<Rightarrow> string \<Rightarrow> url option"
  jsonParse :: "string \<Rightarrow> json option"
  path_join :: "string \<Rightarrow> string \<Rightarrow> string"
  path_dirname :: "string \<Rightarrow> string"
  net :: "request \<Rightarrow> reply"
  shell :: "string \<Rightarrow> fs \<Rightarrow> error option \<times> fs"
  fails :: "fsop \<Rightarrow> string option"

section \<open>utils: validateUrl, sanitizeAppName, generateAppId\<close>

definition validateUrl :: "env \<Rightarrow> string \<Rightarrow> bool" where
  "validateUrl env urlString =
     (case parseURL env urlString of
        None \<Rightarrow> False
      | Some u \<Rightarrow> protocol u = ''http:'' \<or> protocol u = ''https:'')"

definition illegal_name_char :: "char \<Rightarrow> bool" where
  "illegal_name_char c = (c \<in> set (''<>:/|?*'' @ [CHR 0x22, CHR 0x5C]))"

fun collapse_space :: "bool \<Rightarrow> string \<Rightarrow> string" where
  "collapse_space prev [] = []"
| "collapse_space prev (c # cs) =
     (if is_space c then (if prev then collapse_space True cs else CHR '' '' # collapse_space True cs)
      else c # collapse_space False cs)"

definition sanitizeAppName :: "string \<Rightarrow> string" where
  "sanitizeAppName name =
     take 50 (trim (collapse_space False (filter (\<lambda>c. \<not> illegal_name_char c) name)))"

definition generateAppId :: "env \<Rightarrow> string \<Rightarrow> string" where
  "generateAppId env urlString =
     (case parseURL env urlString of
        Some u \<Rightarrow>
          (let hostname' = replace_char CHR ''.'' ''-'' (hostname u);
               pathPart = take 20 (filter (\<lambda>c. is_alnum c \<or> c = CHR ''-'')
                                     (replace_char CHR ''/'' ''-'' (pathname u)))
           in toLowerCase (''com.webnest.'' @ hostname' @ pathPart))
      | None \<Rightarrow> ''com.webnest.app-'' @ show_nat (now env))"

section \<open>The command-line action of the install command\<close>

text \<open>
  The action returns at once when browsers are to be listed, leaves the process with exit
  code 1 when the URL is not valid, and only then goes on to the work of the install
  (browser detection, naming, \<^verbatim>\<open>installWebApp\<close>), which is the parameter \<open>work\<close>.
\<close>

datatype 'r cli_outcome = ListedBrowsers | Exited nat | Worked 'r

definition action :: "env \<Rightarrow> string \<Rightarrow> bool \<Rightarrow> (string \<Rightarrow> 'r) \<Rightarrow> 'r cli_outcome" where
  "action env u listBrowsers work =
     (if listBrowsers then ListedBrowsers
      else if \<not> validateUrl env u then Exited 1
      else Worked (work u))"

section \<open>Network fetcher\<close>

text \<open>
  A promise settles with a value or with an error.  An exception thrown inside the response
  callback, after the executor of the promise has returned, is neither: it reaches no
  \<^verbatim>\<open>catch\<close> of the callers.  A function that awaits a fetch returns an \<open>option\<close>: \<open>None\<close>
  stands for a promise that never settles.
\<close>

datatype 'a outcome = Resolved 'a | Rejected error | Uncaught error

definition mk_request :: "url \<Rightarrow> string option \<Rightarrow> request" where
  "mk_request u accept =
     \<lparr>req_https = (protocol u = ''https:''), req_hostname = hostname u,
      req_port = (if port u \<noteq> [] then port u
                  else if protocol u = ''https:'' then ''443'' else ''80''),
      req_path = pathname u @ search u,
      req_accept = (case accept of Some (c # cs) \<Rightarrow> c # cs | _ \<Rightarrow> ''*/*'')\<rparr>"

text \<open>The condition of the redirect branch: a 3xx status and a non-empty Location.\<close>

definition redirect_location :: "nat \<Rightarrow> string option \<Rightarrow> string option" where
  "redirect_location status location =
     (if 300 \<le> status \<and> status < 400
      then (case location of Some (c # cs) \<Rightarrow> Some (c # cs) | _ \<Rightarrow> None)
      else None)"

partial_function (option) fetchUrl ::
  "env \<Rightarrow> string \<Rightarrow> string option \<Rightarrow> (string \<times> string) outcome option" where
  "fetchUrl env urlString accept =
     (case parseURL env urlString of
        None \<Rightarrow> Some (Rejected InvalidURL)
      | Some u \<Rightarrow>
          (case net env (mk_request u accept) of
             TimedOut \<Rightarrow> Some (Rejected RequestTimedOut)
           | ConnError m \<Rightarrow> Some (Rejected (NetError m))
           | Reply status location ctype body \<Rightarrow>
               (case redirect_location status location of
                  Some loc \<Rightarrow>
                    (if startsWith loc ''http'' then fetchUrl env loc accept
                     else (case resolveURL env loc urlString of
                             None \<Rightarrow> Some (Uncaught InvalidURL)
                           | Some r \<Rightarrow> fetchUrl env (href r) accept))
                | None \<Rightarrow>
                    (if status \<noteq> 200 then Some (Rejected (HttpStatus status))
                     else (case body of
                             Inl m \<Rightarrow> Some (Rejected (NetError m))
                           | Inr d \<Rightarrow>
                               Some (Resolved (d, case ctype of Some c \<Rightarrow> c | None \<Rightarrow> [])))))))"

text \<open>One redirect hop, and \<open>n\<close> of them in a row.\<close>

definition redirect_step :: "env \<Rightarrow> string option \<Rightarrow> string \<Rightarrow> string option" where
  "redirect_step env accept urlString =
     (case parseURL env urlString of
        None \<Rightarrow> None
      | Some u \<Rightarrow>
          (case net env (mk_request u accept) of
             Reply status location ctype body \<Rightarrow>
               (case redirect_location status location of
                  Some loc \<Rightarrow>
                    (if startsWith loc ''http'' then Some loc
                     else map_option href (resolveURL env loc urlString))
                | None \<Rightarrow> None)
           | _ \<Rightarrow> None))"

fun redirect_chain :: "env \<Rightarrow> string option \<Rightarrow> nat \<Rightarrow> string \<Rightarrow> string option" where
  "redirect_chain env accept 0 u = Some u"
| "redirect_chain env accept (Suc n) u =
     (case redirect_step env accept u of
        None \<Rightarrow> None
      | Some u' \<Rightarrow> redirect_chain env accept n u')"

section \<open>The regular expressions of the icon discovery\<close>

text \<open>
  The patterns used are sequences of single characters, character classes and greedy
  repetitions of a class, with one capture group.  \<open>One p\<close> matches one character of
  class \<open>p\<close>; \<open>Many p lo cap\<close> matches at least \<open>lo\<close> characters of class \<open>p\<close>, the longest
  run first and shorter ones on backtracking, and captures them when \<open>cap\<close> is set.
\<close>

datatype atom = One "char \<Rightarrow> bool" | Many "char \<Rightarrow> bool" nat bool

fun first_some :: "'a option list \<Rightarrow> 'a option" where
  "first_some [] = None"
| "first_some (None # xs) = first_some xs"
| "first_some (Some x # xs) = Some x"

fun rmatch :: "atom list \<Rightarrow> string \<Rightarrow> (string list \<times> string) option" where
  "rmatch [] s = Some ([], s)"
| "rmatch (One p # r) s =
     (case s of [] \<Rightarrow> None | c # t \<Rightarrow> if p c then rmatch r t else None)"
| "rmatch (Many p lo cap # r) s =
     first_some
       (map (\<lambda>k. map_option (\<lambda>(gs, rest). (if cap then take k s # gs else gs, rest))
                    (rmatch r (drop k s)))
            (rev [lo ..< Suc (length (takeWhile p s))]))"

text \<open>\<^verbatim>\<open>s.match(re)\<close> without the global flag: the leftmost match.\<close>

fun rsearch :: "atom list \<Rightarrow> string \<Rightarrow> (string list \<times> string) option" where
  "rsearch re [] = rmatch re []"
| "rsearch re (c # s) =
     (case rmatch re (c # s) of Some m \<Rightarrow> Some m | None \<Rightarrow> rsearch re s)"

definition first_group :: "atom list \<Rightarrow> string \<Rightarrow> string option" where
  "first_group re s = (case rsearch re s of Some (g # gs, rest) \<Rightarrow> Some g | _ \<Rightarrow> None)"

text \<open>\<^verbatim>\<open>s.match(re)\<close> with the global flag: the matched texts, left to right.\<close>

fun match_all :: "atom list \<Rightarrow> string \<Rightarrow> string list" where
  "match_all re [] = []"
| "match_all re (c # s) =
     (case rmatch re (c # s) of
        None \<Rightarrow> match_all re s
      | Some (gs, rest) \<Rightarrow>
          (if length rest \<le> length s
           then take (Suc (length s) - length rest) (c # s) # match_all re rest
           else match_all re s))"

text \<open>A literal under the \<^verbatim>\<open>i\<close> flag, given in both cases.\<close>

definition ci :: "string \<Rightarrow> string \<Rightarrow> atom list" where
  "ci lower upper = map (\<lambda>(l, u). One (\<lambda>x. x = l \<or> x = u)) (zip lower upper)"

definition is_quote :: "char \<Rightarrow> bool" where
  "is_quote c = (c = CHR 0x22 \<or> c = CHR 0x27)"

text \<open>\<^verbatim>\<open>/<link[^>]*>/gi\<close>\<close>

definition link_re :: "atom list" where
  "link_re =
     ci ''<link'' ''<LINK'' @ [Many (\<lambda>c. c \<noteq> CHR ''>'') 0 False, One (\<lambda>c. c = CHR ''>'')]"

text \<open>\<^verbatim>\<open>/name=["']([^"']+)["']/i\<close>\<close>

definition attr_re :: "string \<Rightarrow> string \<Rightarrow> atom list" where
  "attr_re name NAME =
     ci name NAME @ [One (\<lambda>c. c = CHR ''=''), One is_quote,
                     Many (\<lambda>c. \<not> is_quote c) 1 True, One is_quote]"

text \<open>\<^verbatim>\<open>/<link[^>]*rel=["']manifest["'][^>]*href=["']([^"']+)["']/i\<close>\<close>

definition manifest_re :: "atom list" where
  "manifest_re =
     ci ''<link'' ''<LINK'' @ [Many (\<lambda>c. c \<noteq> CHR ''>'') 0 False] @ ci ''rel='' ''REL=''
     @ [One is_quote] @ ci ''manifest'' ''MANIFEST''
     @ [One is_quote, Many (\<lambda>c. c \<noteq> CHR ''>'') 0 False] @ attr_re ''href'' ''HREF''"

section \<open>Icon discovery\<close>

record icon =
  icon_href :: string
  icon_size :: int
  icon_type :: json
  isAppleIcon :: "bool option"
  icon_purpose :: "json option"
  priority :: int

text \<open>\<^verbatim>\<open>if (!href.startsWith('http')) href = new URL(href, base).href\<close>\<close>

definition absolute_href :: "env \<Rightarrow> string \<Rightarrow> string \<Rightarrow> string option" where
  "absolute_href env h base =
     (if startsWith h ''http'' then Some h else map_option href (resolveURL env h base))"

text \<open>The candidate pushed for a link tag with the lower-cased relation \<open>rel\<close>.\<close>

definition linkSize :: "string \<Rightarrow> int" where
  "linkSize link =
     (case first_group (attr_re ''sizes'' ''SIZES'') link of
        Some sizes \<Rightarrow> parseSize sizes
      | None \<Rightarrow> 0)"

definition linkType :: "string \<Rightarrow> string" where
  "linkType link =
     (case first_group (attr_re ''type'' ''TYPE'') link of Some t \<Rightarrow> t | None \<Rightarrow> [])"

definition linkIcon :: "string \<Rightarrow> string \<Rightarrow> string \<Rightarrow> icon" where
  "linkIcon rel h link =
     \<lparr>icon_href = h, icon_size = linkSize link, icon_type = JStr (linkType link),
      isAppleIcon = Some (str_includes rel ''apple-touch-icon''), icon_purpose = None,
      priority = (if str_includes rel ''apple-touch-icon'' then linkSize link + 1000
                  else linkSize link)\<rparr>"

text \<open>The body of the loop over the link tags; \<open>Inr None\<close> is \<^verbatim>\<open>continue\<close>.\<close>

definition iconOfLink :: "env \<Rightarrow> string \<Rightarrow> string \<Rightarrow> error + icon option" where
  "iconOfLink env link baseUrl =
     (case first_group (attr_re ''rel'' ''REL'') link of
        None \<Rightarrow> Inr None
      | Some relv \<Rightarrow>
          if \<not> str_includes (toLowerCase relv) ''icon'' then Inr None
          else (case first_group (attr_re ''href'' ''HREF'') link of
                  None \<Rightarrow> Inr None
                | Some h \<Rightarrow>
                    (case absolute_href env h baseUrl of
                       None \<Rightarrow> Inl InvalidURL
                     | Some h' \<Rightarrow> Inr (Some (linkIcon (toLowerCase relv) h' link)))))"

fun collectIcons :: "env \<Rightarrow> string \<Rightarrow> string list \<Rightarrow> error + icon list" where
  "collectIcons env baseUrl [] = Inr []"
| "collectIcons env baseUrl (link # links) =
     (case iconOfLink env link baseUrl of
        Inl e \<Rightarrow> Inl e
      | Inr found \<Rightarrow>
          (case collectIcons env baseUrl links of
             Inl e \<Rightarrow> Inl e
           | Inr rest \<Rightarrow> Inr ((case found of None \<Rightarrow> [] | Some i \<Rightarrow> [i]) @ rest)))"

definition parseIconLinks :: "env \<Rightarrow> string \<Rightarrow> string \<Rightarrow> error + (icon list \<times> string option)" where
  "parseIconLinks env html baseUrl =
     (case collectIcons env baseUrl (match_all link_re html) of
        Inl e \<Rightarrow> Inl e
      | Inr icons \<Rightarrow>
          (case first_group manifest_re html of
             None \<Rightarrow> Inr (icons, None)
           | Some m \<Rightarrow>
               (case absolute_href env m baseUrl of
                  None \<Rightarrow> Inl InvalidURL
                | Some manifestUrl \<Rightarrow> Inr (icons, Some manifestUrl))))"

text \<open>JavaScript truthiness of a JSON value.\<close>

fun truthy :: "json \<Rightarrow> bool" where
  "truthy JNull = False"
| "truthy (JBool b) = b"
| "truthy (JNum n) = (n \<noteq> 0)"
| "truthy (JStr s) = (s \<noteq> [])"
| "truthy (JArr xs) = True"
| "truthy (JObj kvs) = True"

text \<open>\<^verbatim>\<open>v.key\<close>: \<open>Inl\<close> is the TypeError of reading a property of null, \<open>Inr None\<close> is undefined.\<close>

fun property :: "json \<Rightarrow> string \<Rightarrow> error + json option" where
  "property JNull k = Inl (TypeError ''Cannot read properties of null'')"
| "property (JObj kvs) k = Inr (map_of kvs k)"
| "property v k = Inr None"

text \<open>\<^verbatim>\<open>v || d\<close> for a property that may be missing.\<close>

definition js_or :: "error + json option \<Rightarrow> json \<Rightarrow> json" where
  "js_or v d = (case v of Inr (Some x) \<Rightarrow> if truthy x then x else d | _ \<Rightarrow> d)"

text \<open>
  The size of a manifest icon: 0 when \<^verbatim>\<open>icon.sizes\<close> is falsy, the parsed size of a string,
  and a TypeError for any other truthy value, which has no \<^verbatim>\<open>split\<close>.
\<close>

definition manifestSize :: "json \<Rightarrow> error + int" where
  "manifestSize ic =
     (case property ic ''sizes'' of
        Inl e \<Rightarrow> Inl e
      | Inr None \<Rightarrow> Inr 0
      | Inr (Some (JStr sizes)) \<Rightarrow> Inr (if sizes = [] then 0 else parseSize sizes)
      | Inr (Some v) \<Rightarrow>
          if truthy v then Inl (TypeError ''icon.sizes.split is not a function'') else Inr 0)"

text \<open>\<^verbatim>\<open>icon.src\<close> has to be a string for \<^verbatim>\<open>href.startsWith\<close> to exist.\<close>

definition manifestSrc :: "json \<Rightarrow> error + string" where
  "manifestSrc ic =
     (case property ic ''src'' of
        Inl e \<Rightarrow> Inl e
      | Inr (Some (JStr src)) \<Rightarrow> Inr src
      | Inr _ \<Rightarrow> Inl (TypeError ''href.startsWith is not a function''))"

text \<open>The callback of \<^verbatim>\<open>manifest.icons.map\<close>; any exception ends in the \<^verbatim>\<open>catch\<close> of parseManifest.\<close>

definition manifestIcon :: "env \<Rightarrow> string \<Rightarrow> json \<Rightarrow> error + icon" where
  "manifestIcon env base ic =
     (case manifestSrc ic of
        Inl e \<Rightarrow> Inl e
      | Inr src \<Rightarrow>
          (case absolute_href env src base of
             None \<Rightarrow> Inl InvalidURL
           | Some h \<Rightarrow>
               (case manifestSize ic of
                  Inl e \<Rightarrow> Inl e
                | Inr sz \<Rightarrow>
                    Inr \<lparr>icon_href = h, icon_size = sz,
                         icon_type = js_or (property ic ''type'') (JStr []),
                         isAppleIcon = None,
                         icon_purpose = Some (js_or (property ic ''purpose'') (JStr ''any'')),
                         priority = sz\<rparr>)))"

fun mapIcons :: "env \<Rightarrow> string \<Rightarrow> json list \<Rightarrow> error + icon list" where
  "mapIcons env base [] = Inr []"
| "mapIcons env base (ic # ics) =
     (case manifestIcon env base ic of
        Inl e \<Rightarrow> Inl e
      | Inr i \<Rightarrow> (case mapIcons env base ics of Inl e \<Rightarrow> Inl e | Inr rest \<Rightarrow> Inr (i # rest)))"

text \<open>The body of the \<^verbatim>\<open>try\<close> of parseManifest after the fetch; the \<^verbatim>\<open>catch\<close> returns \<open>[]\<close>.\<close>

definition manifestIconsOfData :: "env \<Rightarrow> string \<Rightarrow> string \<Rightarrow> icon list" where
  "manifestIconsOfData env manifestUrl d =
     (case jsonParse env d of
        None \<Rightarrow> []
      | Some manifest \<Rightarrow>
          (case property manifest ''icons'' of
             Inr (Some (JArr icons)) \<Rightarrow>
               (case parseURL env manifestUrl of
                  None \<Rightarrow> []
                | Some baseUrl \<Rightarrow>
                    (case mapIcons env (href baseUrl) icons of Inl e \<Rightarrow> [] | Inr r \<Rightarrow> r))
           | _ \<Rightarrow> []))"

definition parseManifest :: "env \<Rightarrow> string \<Rightarrow> icon list outcome option" where
  "parseManifest env manifestUrl =
     (case fetchUrl env manifestUrl (Some ''application/json'') of
        None \<Rightarrow> None
      | Some (Uncaught e) \<Rightarrow> Some (Uncaught e)
      | Some (Rejected e) \<Rightarrow> Some (Resolved [])
      | Some (Resolved (data, ctype)) \<Rightarrow> Some (Resolved (manifestIconsOfData env manifestUrl data)))"

text \<open>\<^verbatim>\<open>allIcons.sort((a, b) => b.priority - a.priority)\<close>: a stable sort, descending.\<close>

definition sortByPriority :: "icon list \<Rightarrow> icon list" where
  "sortByPriority icons = sort_key (\<lambda>i. - priority i) icons"

text \<open>\<^verbatim>\<open>`${url.protocol}//${url.hostname}/favicon.ico`\<close>\<close>

definition faviconUrl :: "url \<Rightarrow> string" where
  "faviconUrl u = protocol u @ ''//'' @ hostname u @ ''/favicon.ico''"

definition faviconFallback :: "env \<Rightarrow> string \<Rightarrow> string outcome" where
  "faviconFallback env websiteUrl =
     (case parseURL env websiteUrl of
        None \<Rightarrow> Rejected InvalidURL
      | Some u \<Rightarrow> Resolved (faviconUrl u))"

text \<open>A promise that settles: it resolves or it rejects.\<close>

definition settled :: "'a outcome option \<Rightarrow> bool" where
  "settled x = (case x of Some (Resolved r) \<Rightarrow> True | Some (Rejected e) \<Rightarrow> True | _ \<Rightarrow> False)"

text \<open>\<^verbatim>\<open>if (manifestUrl) manifestIcons = await parseManifest(manifestUrl)\<close>\<close>

definition manifestIconsOf :: "env \<Rightarrow> string option \<Rightarrow> icon list outcome option" where
  "manifestIconsOf env manifestUrl =
     (case manifestUrl of
        None \<Rightarrow> Some (Resolved [])
      | Some m \<Rightarrow> if m = [] then Some (Resolved []) else parseManifest env m)"

definition getBestIconUrl :: "env \<Rightarrow> string \<Rightarrow> string outcome option" where
  "getBestIconUrl env websiteUrl =
     (case fetchUrl env websiteUrl (Some ''text/html'') of
        None \<Rightarrow> None
      | Some (Uncaught e) \<Rightarrow> Some (Uncaught e)
      | Some (Rejected e) \<Rightarrow> Some (faviconFallback env websiteUrl)
      | Some (Resolved (html, ctype)) \<Rightarrow>
          (case parseIconLinks env html websiteUrl of
             Inl e \<Rightarrow> Some (faviconFallback env websiteUrl)
           | Inr (htmlIcons, manifestUrl) \<Rightarrow>
               (case manifestIconsOf env manifestUrl of
                  None \<Rightarrow> None
                | Some (Uncaught e) \<Rightarrow> Some (Uncaught e)
                | Some (Rejected e) \<Rightarrow> Some (faviconFallback env websiteUrl)
                | Some (Resolved manifestIcons) \<Rightarrow>
                    (case sortByPriority (htmlIcons @ manifestIcons) of
                       best # _ \<Rightarrow> Some (Resolved (icon_href best))
                     | [] \<Rightarrow> Some (faviconFallback env websiteUrl)))))"

section \<open>File system\<close>

text \<open>
  The file system is the list of the paths that exist, each a file with its content or a
  directory.  An operation fails when the environment refuses it or when its own
  precondition does not hold.  Only the paths named by the code are tracked: creating a
  directory does not record its ancestors.
\<close>

definition fs_update :: "string \<Rightarrow> node \<Rightarrow> fs \<Rightarrow> fs" where
  "fs_update p n f =
     (if map_of f p = None then f @ [(p, n)]
      else map (\<lambda>(q, m). if q = p then (q, n) else (q, m)) f)"

definition fs_delete :: "string \<Rightarrow> fs \<Rightarrow> fs" where
  "fs_delete p f = filter (\<lambda>(q, m). q \<noteq> p) f"

definition within :: "string \<Rightarrow> string \<Rightarrow> bool" where
  "within d q = (q = d \<or> startsWith q (d @ ''/'') \<or> startsWith q (d @ [CHR 0x5C]))"

definition rm_tree :: "string \<Rightarrow> fs \<Rightarrow> fs" where
  "rm_tree d f = filter (\<lambda>(q, m). \<not> within d q) f"

definition child_name :: "string \<Rightarrow> string \<Rightarrow> string option" where
  "child_name d q =
     (if startsWith q (d @ ''/'') \<or> startsWith q (d @ [CHR 0x5C])
      then (let n = drop (Suc (length d)) q
            in if n \<noteq> [] \<and> CHR ''/'' \<notin> set n \<and> CHR 0x5C \<notin> set n then Some n else None)
      else None)"

definition children :: "fs \<Rightarrow> string \<Rightarrow> string list" where
  "children f d = concat (map (\<lambda>(q, m). case child_name d q of None \<Rightarrow> [] | Some n \<Rightarrow> [n]) f)"

definition refused :: "env \<Rightarrow> fsop \<Rightarrow> error option" where
  "refused env op = map_option IOError (fails env op)"

definition existsSync :: "fs \<Rightarrow> string \<Rightarrow> bool" where
  "existsSync f p = (map_of f p \<noteq> None)"

definition mkdirp :: "env \<Rightarrow> fs \<Rightarrow> string \<Rightarrow> error + fs" where
  "mkdirp env f p =
     (case refused env (OpMkdir p) of
        Some e \<Rightarrow> Inl e
      | None \<Rightarrow>
          (case map_of f p of
             Some (File d) \<Rightarrow> Inl (IOError ''EEXIST'')
           | _ \<Rightarrow> Inr (fs_update p Dir f)))"

definition writeFile :: "env \<Rightarrow> fs \<Rightarrow> string \<Rightarrow> string \<Rightarrow> error + fs" where
  "writeFile env f p d =
     (case refused env (OpWrite p) of
        Some e \<Rightarrow> Inl e
      | None \<Rightarrow>
          (case map_of f p of
             Some Dir \<Rightarrow> Inl (IOError ''EISDIR'')
           | _ \<Rightarrow> Inr (fs_update p (File d) f)))"


definition copyFileSync :: "env \<Rightarrow> fs \<Rightarrow> string \<Rightarrow> string \<Rightarrow> error + fs" where
  "copyFileSync env f src dst =
     (case refused env (OpCopy src dst) of
        Some e \<Rightarrow> Inl e
      | None \<Rightarrow>
          (case map_of f src of
             Some (File d) \<Rightarrow>
               (case map_of f dst of
                  Some Dir \<Rightarrow> Inl (IOError ''EISDIR'')
                | _ \<Rightarrow> Inr (fs_update dst (File d) f))
           | _ \<Rightarrow> Inl (IOError ''ENOENT'')))"

text \<open>The code renames files only; a node is moved without what lies below it.\<close>

definition renameSync :: "env \<Rightarrow> fs \<Rightarrow> string \<Rightarrow> string \<Rightarrow> error + fs" where
  "renameSync env f src dst =
     (case refused env (OpRename src dst) of
        Some e \<Rightarrow> Inl e
      | None \<Rightarrow>
          (case map_of f src of
             None \<Rightarrow> Inl (IOError ''ENOENT'')
           | Some n \<Rightarrow> Inr (if src = dst then f else fs_update dst n (fs_delete src f))))"

definition stat :: "env \<Rightarrow> fs \<Rightarrow> string \<Rightarrow> error + node" where
  "stat env f p =
     (case refused env (OpStat p) of
        Some e \<Rightarrow> Inl e
      | None \<Rightarrow> (case map_of f p of None \<Rightarrow> Inl (IOError ''ENOENT'') | Some n \<Rightarrow> Inr n))"

definition readdir :: "env \<Rightarrow> fs \<Rightarrow> string \<Rightarrow> error + string list" where
  "readdir env f d =
     (case refused env (OpReaddir d) of
        Some e \<Rightarrow> Inl e
      | None \<Rightarrow>
          (case map_of f d of
             Some Dir \<Rightarrow> Inr (children f d)
           | Some (File x) \<Rightarrow> Inl (IOError ''ENOTDIR'')
           | None \<Rightarrow> Inl (IOError ''ENOENT'')))"

definition readFileSync :: "env \<Rightarrow> fs \<Rightarrow> string \<Rightarrow> error + string" where
  "readFileSync env f p =
     (case refused env (OpRead p) of
        Some e \<Rightarrow> Inl e
      | None \<Rightarrow>
          (case map_of f p of
             Some (File d) \<Rightarrow> Inr d
           | Some Dir \<Rightarrow> Inl (IOError ''EISDIR'')
           | None \<Rightarrow> Inl (IOError ''ENOENT'')))"

text \<open>\<^verbatim>\<open>fs.rm(p, {recursive: true, force: true})\<close>: a missing path is no error.\<close>

definition rm :: "env \<Rightarrow> fs \<Rightarrow> string \<Rightarrow> error + fs" where
  "rm env f p =
     (case refused env (OpRm p) of
        Some e \<Rightarrow> Inl e
      | None \<Rightarrow> Inr (rm_tree p f))"


text \<open>\<^verbatim>\<open>error.message\<close>\<close>

fun message :: "error \<Rightarrow> string" where
  "message (HttpStatus n) = ''HTTP '' @ show_nat n"
| "message RequestTimedOut = ''Request timed out''"
| "message (NetError m) = m"
| "message InvalidURL = ''Invalid URL''"
| "message (TypeError m) = m"
| "message (IOError m) = m"
| "message (ExecError m) = m"
| "message (Failure m) = m"

definition quoted :: "string \<Rightarrow> string" where
  "quoted s = [CHR 0x22] @ s @ [CHR 0x22]"

definition rm_rf_command :: "string \<Rightarrow> string" where
  "rm_rf_command d = ''rm -rf '' @ quoted d"

text \<open>Commands awaited one after the other; the first that fails throws.\<close>

fun execAll :: "env \<Rightarrow> fs \<Rightarrow> string list \<Rightarrow> (error \<times> fs) + fs" where
  "execAll env f [] = Inr f"
| "execAll env f (c # cs) =
     (case shell env c f of
        (Some e, f') \<Rightarrow> Inl (e, f')
      | (None, f') \<Rightarrow> execAll env f' cs)"

section \<open>Icon download and transcoding\<close>

datatype download = Downloaded string string nat | DownloadFailed string

text \<open>\<open>IconOk path note\<close> is \<^verbatim>\<open>{success: true, path, note}\<close>, \<open>IconFailed error\<close> is \<^verbatim>\<open>{success: false, error}\<close>.\<close>

datatype icon_result = IconOk string "string option" | IconFailed string

definition extensionFor :: "string \<Rightarrow> string \<Rightarrow> string" where
  "extensionFor contentType iconUrl =
     (if str_includes contentType ''svg'' then ''.svg''
      else if str_includes contentType ''ico'' \<or> endsWith iconUrl ''.ico'' then ''.ico''
      else if str_includes contentType ''jpeg'' \<or> str_includes contentType ''jpg'' then ''.jpg''
      else if endsWith iconUrl ''.svg'' then ''.svg''
      else ''.png'')"

definition downloadIcon :: "env \<Rightarrow> fs \<Rightarrow> string \<Rightarrow> string \<Rightarrow> (download outcome \<times> fs) option" where
  "downloadIcon env f iconUrl tempDir =
     (case fetchUrl env iconUrl None of
        None \<Rightarrow> None
      | Some (Uncaught e) \<Rightarrow> Some (Uncaught e, f)
      | Some (Rejected e) \<Rightarrow> Some (Resolved (DownloadFailed (message e)), f)
      | Some (Resolved (d, contentType)) \<Rightarrow>
          (let ext = extensionFor contentType iconUrl
           in case mkdirp env f tempDir of
                Inl e \<Rightarrow> Some (Resolved (DownloadFailed (message e)), f)
              | Inr f1 \<Rightarrow>
                  (let iconPath = path_join env tempDir (''icon'' @ ext)
                   in case writeFile env f1 iconPath d of
                        Inl e \<Rightarrow> Some (Resolved (DownloadFailed (message e)), f1)
                      | Inr f2 \<Rightarrow> Some (Resolved (Downloaded iconPath ext (length d)), f2))))"

definition sips_resize :: "env \<Rightarrow> string \<Rightarrow> string \<Rightarrow> nat \<Rightarrow> string \<Rightarrow> string" where
  "sips_resize env inputPath tempDir px name =
     ''sips -z '' @ show_nat px @ '' '' @ show_nat px @ '' '' @ quoted inputPath @ '' --out ''
     @ quoted (path_join env tempDir name) @ '' 2>/dev/null''"

definition iconset_commands :: "env \<Rightarrow> string \<Rightarrow> string \<Rightarrow> nat \<Rightarrow> string list" where
  "iconset_commands env inputPath tempDir sz =
     sips_resize env inputPath tempDir sz
       (''icon_'' @ show_nat sz @ ''x'' @ show_nat sz @ ''.png'')
     # (if sz * 2 \<le> 1024
        then [sips_resize env inputPath tempDir (sz * 2)
                (''icon_'' @ show_nat sz @ ''x'' @ show_nat sz @ ''@2x.png'')]
        else [])"

definition convertToIcns :: "env \<Rightarrow> fs \<Rightarrow> string \<Rightarrow> string \<Rightarrow> icon_result \<times> fs" where
  "convertToIcns env f inputPath outputPath =
     (let tempDir = path_join env (path_dirname env outputPath) ''icon.iconset'';
          cleanup = (\<lambda>e f'. (IconFailed (message e), snd (shell env (rm_rf_command tempDir) f')))
      in case mkdirp env f tempDir of
           Inl e \<Rightarrow> cleanup e f
         | Inr f1 \<Rightarrow>
             (case execAll env f1
                     (concat (map (iconset_commands env inputPath tempDir) [16, 32, 64, 128, 256, 512])
                      @ [''iconutil -c icns '' @ quoted tempDir @ '' -o '' @ quoted outputPath,
                         rm_rf_command tempDir]) of
                Inl (e, f2) \<Rightarrow> cleanup e f2
              | Inr f2 \<Rightarrow> (IconOk outputPath None, f2)))"

definition ico_convert_command :: "string \<Rightarrow> string \<Rightarrow> string" where
  "ico_convert_command inputPath outputPath =
     ''convert '' @ quoted inputPath @ '' -define icon:auto-resize=256,128,64,48,32,16 ''
     @ quoted outputPath"

definition png_note :: string where
  "png_note = ''Saved as PNG (ImageMagick not available for ICO conversion)''"

definition convertToIco :: "env \<Rightarrow> fs \<Rightarrow> string \<Rightarrow> string \<Rightarrow> icon_result \<times> fs" where
  "convertToIco env f inputPath outputPath =
     (case execAll env f [''which convert'', ico_convert_command inputPath outputPath] of
        Inr f2 \<Rightarrow> (IconOk outputPath None, f2)
      | Inl (e, f2) \<Rightarrow>
          (let pngPath = replace_first ''.ico'' ''.png'' outputPath
           in case copyFileSync env f2 inputPath pngPath of
                Inr f3 \<Rightarrow> (IconOk pngPath (Some png_note), f3)
              | Inl e' \<Rightarrow> (IconFailed (message e'), f2)))"

definition svg_to_png_command :: "string \<Rightarrow> string \<Rightarrow> string \<Rightarrow> string" where
  "svg_to_png_command tempDir dlPath pngPath =
     ''qlmanage -t -s 1024 -o '' @ quoted tempDir @ '' '' @ quoted dlPath
     @ '' 2>/dev/null || sips -s format png '' @ quoted dlPath
     @ '' --out '' @ quoted pngPath @ '' 2>/dev/null''"

definition png_convert_command :: "string \<Rightarrow> string \<Rightarrow> string" where
  "png_convert_command dlPath pngPath =
     ''sips -s format png '' @ quoted dlPath @ '' --out '' @ quoted pngPath
     @ '' 2>/dev/null || convert '' @ quoted dlPath @ '' '' @ quoted pngPath"

text \<open>
  The \<^verbatim>\<open>switch\<close> of prepareIcon.  \<open>Inl\<close> is an exception that leaves prepareIcon (the
  synchronous copies of the Linux branch are not inside a \<^verbatim>\<open>try\<close>).
\<close>

definition convertForPlatform ::
  "env \<Rightarrow> fs \<Rightarrow> string \<Rightarrow> string \<Rightarrow> string \<Rightarrow> string \<Rightarrow> string \<Rightarrow> (error \<times> fs) + (icon_result \<times> fs)" where
  "convertForPlatform env f plat outputDir tempDir dlPath ext =
     (if plat = ''darwin'' then
        (let icnsPath = path_join env outputDir ''AppIcon.icns'' in
         if ext = ''.svg'' then
           (let pngPath = path_join env tempDir ''icon.png'' in
            case shell env (svg_to_png_command tempDir dlPath pngPath) f of
              (None, f1) \<Rightarrow> Inr (convertToIcns env f1 pngPath icnsPath)
            | (Some e, f1) \<Rightarrow> Inr (convertToIcns env f1 dlPath icnsPath))
         else Inr (convertToIcns env f dlPath icnsPath))
      else if plat = ''win32'' then
        Inr (convertToIco env f dlPath (path_join env outputDir ''app.ico''))
      else if plat = ''linux'' then
        (let pngPath = path_join env outputDir ''icon.png'' in
         if ext = ''.png'' then
           (case copyFileSync env f dlPath pngPath of
              Inl e \<Rightarrow> Inl (e, f)
            | Inr f1 \<Rightarrow> Inr (IconOk pngPath None, f1))
         else
           (case shell env (png_convert_command dlPath pngPath) f of
              (None, f1) \<Rightarrow> Inr (IconOk pngPath None, f1)
            | (Some e, f1) \<Rightarrow>
                (case copyFileSync env f1 dlPath pngPath of
                   Inl e' \<Rightarrow> Inl (e', f1)
                 | Inr f2 \<Rightarrow> Inr (IconOk pngPath None, f2))))
      else Inr (IconFailed (''Unsupported platform: '' @ plat), f))"

definition prepareIcon ::
  "env \<Rightarrow> fs \<Rightarrow> string \<Rightarrow> string \<Rightarrow> string \<Rightarrow> (icon_result outcome \<times> fs) option" where
  "prepareIcon env f websiteUrl outputDir plat =
     (case getBestIconUrl env websiteUrl of
        None \<Rightarrow> None
      | Some (Uncaught e) \<Rightarrow> Some (Uncaught e, f)
      | Some (Rejected e) \<Rightarrow> Some (Rejected e, f)
      | Some (Resolved iconUrl) \<Rightarrow>
          (let tempDir = path_join env outputDir ''.icon-temp''
           in case downloadIcon env f iconUrl tempDir of
                None \<Rightarrow> None
              | Some (Uncaught e, f1) \<Rightarrow> Some (Uncaught e, f1)
              | Some (Rejected e, f1) \<Rightarrow> Some (Rejected e, f1)
              | Some (Resolved (DownloadFailed err), f1) \<Rightarrow>
                  Some (Resolved (IconFailed (''Failed to download icon: '' @ err)), f1)
              | Some (Resolved (Downloaded dlPath ext sz), f1) \<Rightarrow>
                  (case convertForPlatform env f1 plat outputDir tempDir dlPath ext of
                     Inl (e, f2) \<Rightarrow> Some (Rejected e, f2)
                   | Inr (result, f2) \<Rightarrow>
                       Some (Resolved result, snd (shell env (rm_rf_command tempDir) f2)))))"

section \<open>Installer\<close>

record browser =
  browser_id :: string
  browser_path :: string
  browser_name :: string


text \<open>
  The icon pipeline has failed: prepareIcon returned \<^verbatim>\<open>{success: false}\<close> or threw.
\<close>

definition iconPipelineFailed :: "icon_result outcome \<Rightarrow> bool" where
  "iconPipelineFailed r =
     (case r of Resolved (IconFailed e) \<Rightarrow> True | Rejected e \<Rightarrow> True | _ \<Rightarrow> False)"

text \<open>A name that every JavaScript object inherits: the lookup in a table finds a non-string.\<close>

definition inherited_property :: "string \<Rightarrow> bool" where
  "inherited_property k =
     (k \<in> set [''constructor'', ''hasOwnProperty'', ''isPrototypeOf'', ''propertyIsEnumerable'',
                ''toLocaleString'', ''toString'', ''valueOf'', ''__proto__'',
                ''__defineGetter__'', ''__defineSetter__'', ''__lookupGetter__'',
                ''__lookupSetter__''])"

text \<open>\<^verbatim>\<open>${v}\<close> of an environment variable: the text \<^verbatim>\<open>undefined\<close> when it is not set.\<close>

definition interpolate :: "string option \<Rightarrow> string" where
  "interpolate v = (case v of None \<Rightarrow> ''undefined'' | Some x \<Rightarrow> x)"

definition browser_ids :: "string list" where
  "browser_ids = [''chrome'', ''edge'', ''brave'', ''chromium'', ''comet'', ''atlas'']"

definition directories :: "env \<Rightarrow> string \<Rightarrow> (string \<times> string) list option" where
  "directories env plat =
     (if plat = ''darwin'' then
        Some [(''chrome'', ''~/Applications/Chrome Apps.localized''),
              (''edge'', ''~/Applications/Edge Apps.localized''),
              (''brave'', ''~/Applications/Brave Apps.localized''),
              (''chromium'', ''~/Applications/Chromium Apps.localized''),
              (''comet'', ''~/Applications/Comet Apps.localized''),
              (''atlas'', ''~/Applications/Atlas Apps.localized'')]
      else if plat = ''win32'' then
        Some (map (\<lambda>(k, n). (k, interpolate (env_APPDATA env) @ [CHR 0x5C] @ ''Microsoft''
                                 @ [CHR 0x5C] @ ''Windows'' @ [CHR 0x5C] @ ''Start Menu''
                                 @ [CHR 0x5C] @ ''Programs'' @ [CHR 0x5C] @ n @ '' Apps''))
                [(''chrome'', ''Chrome''), (''edge'', ''Edge''), (''brave'', ''Brave''),
                 (''chromium'', ''Chromium''), (''comet'', ''Comet''), (''atlas'', ''Atlas'')])
      else if plat = ''linux'' then
        Some (map (\<lambda>k. (k, ''~/.local/share/applications'')) browser_ids)
      else None)"

text \<open>\<^verbatim>\<open>path.join\<close> with an argument that is undefined.\<close>

definition path_type_error :: error where
  "path_type_error = TypeError (''The '' @ quoted ''path'' @ '' argument must be of type string'')"

definition expandHomePath :: "env \<Rightarrow> string \<Rightarrow> error + string" where
  "expandHomePath env filepath =
     (if startsWith filepath ''~'' then
        (case (case env_HOME env of Some (c # cs) \<Rightarrow> Some (c # cs) | _ \<Rightarrow> env_USERPROFILE env) of
           None \<Rightarrow> Inl path_type_error
         | Some home \<Rightarrow> Inr (path_join env home (drop 1 filepath)))
      else Inr filepath)"

text \<open>\<^verbatim>\<open>expandHomePath(platformDirs[browserId] || platformDirs.chrome)\<close>\<close>

definition dirOfBrowser :: "env \<Rightarrow> (string \<times> string) list \<Rightarrow> string \<Rightarrow> error + string" where
  "dirOfBrowser env platformDirs browserId =
     (case map_of platformDirs browserId of
        Some d \<Rightarrow> expandHomePath env d
      | None \<Rightarrow>
          if inherited_property browserId
          then Inl (TypeError ''filepath.startsWith is not a function'')
          else (case map_of platformDirs ''chrome'' of
                  Some d \<Rightarrow> expandHomePath env d
                | None \<Rightarrow> Inl (TypeError ''Cannot read properties of undefined'')))"


definition getWebAppDirectoryById :: "env \<Rightarrow> string \<Rightarrow> error + string option" where
  "getWebAppDirectoryById env browserId =
     (case directories env (platform env) of
        None \<Rightarrow> Inr None
      | Some platformDirs \<Rightarrow>
          (case dirOfBrowser env platformDirs browserId of Inl e \<Rightarrow> Inl e | Inr d \<Rightarrow> Inr (Some d)))"

definition getBrowserName :: "string \<Rightarrow> string" where
  "getBrowserName browserId =
     (case map_of [(''chrome'', ''Google Chrome''), (''edge'', ''Microsoft Edge''),
                   (''brave'', ''Brave Browser''), (''chromium'', ''Chromium''),
                   (''comet'', ''Comet Browser''), (''atlas'', ''Atlas Browser'')] browserId of
        Some n \<Rightarrow> n
      | None \<Rightarrow> browserId)"

definition unlines :: "string list \<Rightarrow> string" where
  "unlines ls = concat (map (\<lambda>l. l @ [CHR 0x0A]) ls)"

definition iconNoteText :: string where
  "iconNoteText = ''Could not fetch icon from website. ''"







definition lsregister :: string where
  "lsregister =
     ''/System/Library/Frameworks/CoreServices.framework/Frameworks/LaunchServices.framework/Support/lsregister''"

text \<open>
  The icon step of the macOS bundle: the \<^verbatim>\<open>try\<close> around prepareIcon and the rename.  The
  result is the note and the file system left behind.
\<close>

definition finishMacIcon :: "env \<Rightarrow> string \<Rightarrow> icon_result outcome \<times> fs \<Rightarrow> string \<times> fs" where
  "finishMacIcon env resourcesPath r =
     (case r of
        (Resolved (IconOk p n), f) \<Rightarrow>
          (let iconPath = path_join env resourcesPath ''AppIcon.icns''
           in if p \<noteq> iconPath \<and> existsSync f p
              then (case renameSync env f p iconPath of
                      Inl e \<Rightarrow> (iconNoteText, f)
                    | Inr f' \<Rightarrow> ([], f'))
              else ([], f))
      | (_, f) \<Rightarrow> (iconNoteText, f))"






definition desktopContent :: "string \<Rightarrow> browser \<Rightarrow> string \<Rightarrow> string \<Rightarrow> string \<Rightarrow> string" where
  "desktopContent appName b u iconPath safeName =
     unlines
       [''[Desktop Entry]'',
        ''Version=1.0'',
        ''Type=Application'',
        ''Name='' @ appName,
        ''Comment='' @ appName @ '' - Web App created by WebNest'',
        ''Exec='' @ quoted (browser_path b) @ '' --app='' @ quoted u,
        ''Icon='' @ iconPath,
        ''Terminal=false'',
        ''Categories=Network;WebBrowser;'',
        ''StartupWMClass='' @ safeName,
        ''StartupNotify=true'']"

definition update_desktop_database :: string where
  "update_desktop_database = ''update-desktop-database ~/.local/share/applications/ 2>/dev/null || true''"

text \<open>The icon step of the desktop entry: the \<^verbatim>\<open>Icon=\<close> value, the note, the file system.\<close>

definition finishLinuxIcon ::
  "env \<Rightarrow> string \<Rightarrow> string \<Rightarrow> icon_result outcome \<times> fs \<Rightarrow> string \<times> string \<times> fs" where
  "finishLinuxIcon env iconDir appId r =
     (case r of
        (Resolved (IconOk p n), f) \<Rightarrow>
          (let newIconPath = path_join env iconDir (appId @ ''.png'')
           in case renameSync env f p newIconPath of
                Inl e \<Rightarrow> (''web-browser'', iconNoteText, f)
              | Inr f' \<Rightarrow> (newIconPath, [], f'))
      | (_, f) \<Rightarrow> (''web-browser'', iconNoteText, f))"



section \<open>App registry: removal\<close>

text \<open>
  The test \<^verbatim>\<open>!appDir\<close> of uninstallWebApp holds for \<^verbatim>\<open>null\<close> and for the empty string.
  \<open>Removed appPath browserName\<close> is \<^verbatim>\<open>{success: true, appPath, browserName}\<close>;
  \<open>NotRemoved notFound error\<close> is \<^verbatim>\<open>{success: false, error}\<close>, with \<^verbatim>\<open>notFound: true\<close> when
  the flag is set.
\<close>

datatype uninstall_result = Removed string string | NotRemoved bool string

text \<open>The search of macOS and Windows: the exact name, then a name equal up to case.\<close>

definition findByName :: "env \<Rightarrow> fs \<Rightarrow> string \<Rightarrow> string \<Rightarrow> string \<Rightarrow> error + string option" where
  "findByName env f appDir safeName ext =
     (case stat env f (path_join env appDir (safeName @ ext)) of
        Inr n \<Rightarrow> Inr (Some (path_join env appDir (safeName @ ext)))
      | Inl e \<Rightarrow>
          (case readdir env f appDir of
             Inl e' \<Rightarrow> Inl e'
           | Inr files \<Rightarrow>
               Inr (map_option (path_join env appDir)
                      (List.find (\<lambda>x. toLowerCase x = toLowerCase safeName @ ext) files))))"

text \<open>The search of Linux: a desktop entry picked by its file name, then checked by its content.\<close>

definition desktopMatches :: "string \<Rightarrow> string \<Rightarrow> bool" where
  "desktopMatches safeName x =
     (endsWith x ''.desktop''
      \<and> (str_includes (toLowerCase (replace_first ''.desktop'' [] x)) (toLowerCase safeName)
         \<or> str_includes (toLowerCase x) ''webnest''))"

definition findDesktopEntry :: "env \<Rightarrow> fs \<Rightarrow> string \<Rightarrow> string \<Rightarrow> error + string option" where
  "findDesktopEntry env f appDir safeName =
     (case readdir env f appDir of
        Inl e \<Rightarrow> Inl e
      | Inr files \<Rightarrow>
          (case List.find (desktopMatches safeName) files of
             None \<Rightarrow> Inr None
           | Some desktopMatch \<Rightarrow>
               (case readFileSync env f (path_join env appDir desktopMatch) of
                  Inl e \<Rightarrow> Inr None
                | Inr content \<Rightarrow>
                    if str_includes content safeName \<or> str_includes content ''WebNest''
                    then Inr (Some (path_join env appDir desktopMatch))
                    else Inr None)))"

definition findApp :: "env \<Rightarrow> fs \<Rightarrow> string \<Rightarrow> string \<Rightarrow> error + string option" where
  "findApp env f appDir safeName =
     (if platform env = ''darwin'' then findByName env f appDir safeName ''.app''
      else if platform env = ''win32'' then findByName env f appDir safeName ''.lnk''
      else if platform env = ''linux'' then findDesktopEntry env f appDir safeName
      else Inr None)"

definition uninstallWebApp :: "env \<Rightarrow> fs \<Rightarrow> string \<Rightarrow> string \<Rightarrow> uninstall_result outcome \<times> fs" where
  "uninstallWebApp env f appName browserId =
     (case getWebAppDirectoryById env browserId of
        Inl e \<Rightarrow> (Rejected e, f)
      | Inr None \<Rightarrow> (Resolved (NotRemoved False (''Unsupported platform: '' @ platform env)), f)
      | Inr (Some appDir) \<Rightarrow>
          (let browserName = getBrowserName browserId;
               safeName = sanitizeAppName appName
           in if appDir = [] then
                (Resolved (NotRemoved False (''Unsupported platform: '' @ platform env)), f)
              else case stat env f appDir of
                Inl e \<Rightarrow>
                  (Resolved (NotRemoved True (''No '' @ browserName @ '' apps directory found'')), f)
              | Inr n \<Rightarrow>
                  (case findApp env f appDir safeName of
                     Inl e \<Rightarrow> (Rejected e, f)
                   | Inr None \<Rightarrow>
                       (Resolved (NotRemoved True (''App '' @ quoted appName @ '' not found in ''
                                                   @ browserName @ '' apps'')), f)
                   | Inr (Some appPath) \<Rightarrow>
                       (case rm env f appPath of
                          Inl e \<Rightarrow>
                            (Resolved (NotRemoved False (''Failed to remove app: '' @ message e)), f)
                        | Inr f1 \<Rightarrow>
                            (Resolved (Removed appPath browserName),
                             (if platform env = ''darwin''
                              then snd (shell env (lsregister @ '' -u '' @ quoted appPath
                                                   @ '' 2>/dev/null || true'') f1)
                              else if platform env = ''linux''
                              then snd (shell env update_desktop_database f1)
                              else f1))))))"

section \<open>A sample environment\<close>

text \<open>
  A small parser for plain \<^verbatim>\<open>http://host/path\<close> and \<^verbatim>\<open>https://host/path\<close> strings, and an
  environment built on it: Linux, a network that answers nothing, no external tools and a
  file system whose operations succeed.
\<close>

definition sample_parse :: "string \<Rightarrow> url option" where
  "sample_parse s =
     (let (proto, rest) =
            (if startsWith s ''https://'' then (''https:'', drop 8 s)
             else if startsWith s ''http://'' then (''http:'', drop 7 s)
             else ([], []));
          host = takeWhile (\<lambda>c. c \<noteq> CHR ''/'') rest;
          p = dropWhile (\<lambda>c. c \<noteq> CHR ''/'') rest;
          path = (if p = [] then ''/'' else p)
      in if proto = [] \<or> host = [] then None
         else Some \<lparr>protocol = proto, hostname = host, port = [], pathname = path,
                    search = [], href = proto @ ''//'' @ host @ path\<rparr>)"

definition sample_resolve :: "string \<Rightarrow> string \<Rightarrow> url option" where
  "sample_resolve rel base =
     (case sample_parse rel of
        Some u \<Rightarrow> Some u
      | None \<Rightarrow>
          (case sample_parse base of
             None \<Rightarrow> None
           | Some b \<Rightarrow>
               (if startsWith rel ''/'' then sample_parse (protocol b @ ''//'' @ hostname b @ rel)
                else sample_parse (protocol b @ ''//'' @ hostname b
                                   @ rev (dropWhile (\<lambda>c. c \<noteq> CHR ''/'') (rev (pathname b))) @ rel))))"

definition sample_env :: env where
  "sample_env =
     \<lparr>platform = ''linux'', env_HOME = Some ''/home/u'', env_USERPROFILE = None,
      env_APPDATA = None, env_TEMP = None, now = 0,
      parseURL = sample_parse, resolveURL = sample_resolve, jsonParse = (\<lambda>_. None),
      path_join = (\<lambda>a b. a @ ''/'' @ b),
      path_dirname = (\<lambda>p. rev (drop 1 (dropWhile (\<lambda>c. c \<noteq> CHR ''/'') (rev p)))),
      net = (\<lambda>_. ConnError ''getaddrinfo ENOTFOUND''),
      shell = (\<lambda>_ f. (Some (ExecError ''command not found''), f)),
      fails = (\<lambda>_. None)\<rparr>"


text \<open>A server that answers every request with the same three bytes, as a PNG image.\<close>

definition icon_server :: "request \<Rightarrow> reply" where
  "icon_server r = Reply 200 None (Some ''image/png'') (Inr ''PNG'')"


text \<open>Windows: the shell knows neither \<^verbatim>\<open>which\<close>, \<^verbatim>\<open>convert\<close> nor \<^verbatim>\<open>rm\<close>.\<close>

definition windows_env :: env where
  "windows_env =
     sample_env\<lparr>platform := ''win32'', env_HOME := None,
                env_APPDATA := Some ''C:/Users/u/AppData/Roaming'', env_TEMP := Some ''C:/Temp'',
                net := icon_server\<rparr>"

text \<open>The same, on a disk that refuses every copy.\<close>

definition readonly_env :: env where
  "readonly_env =
     windows_env\<lparr>fails := (\<lambda>op. case op of OpCopy a b \<Rightarrow> Some ''EACCES'' | _ \<Rightarrow> None)\<rparr>"

definition sample_browser :: browser where
  "sample_browser =
     \<lparr>browser_id = ''chrome'', browser_path = ''/usr/bin/google-chrome'',
      browser_name = ''Google Chrome''\<rparr>"



text \<open>An applications directory that holds the desktop entry made for another site.\<close>

definition github_installed :: fs where
  "github_installed =
     [(''/home/u//.local/share/applications'', Dir),
      (''/home/u//.local/share/applications/com.webnest.github-com-.desktop'',
       File (desktopContent ''GitHub'' sample_browser ''https://github.com'' ''web-browser'' ''GitHub''))]"

text \<open>A server that answers every request with a redirect to \<^verbatim>\<open>/\<close>.\<close>

definition loop_env :: env where
  "loop_env = sample_env\<lparr>net := (\<lambda>r. Reply 302 (Some ''/'') None (Inr []))\<rparr>"

text \<open>
  A server whose root redirects to the relative reference \<^verbatim>\<open>httpdocs/x\<close> and that serves
  every other path.
\<close>

definition httpdocs_env :: env where
  "httpdocs_env =
     sample_env\<lparr>net := (\<lambda>r. if req_path r = ''/'' then Reply 302 (Some ''httpdocs/x'') None (Inr [])
                             else Reply 200 None (Some ''text/html'') (Inr ''ok''))\<rparr>"

text \<open>
  Host \<^verbatim>\<open>a\<close> redirects \<^verbatim>\<open>/\<close> to \<^verbatim>\<open>/b\<close> and \<^verbatim>\<open>/b\<close> to \<^verbatim>\<open>http://c/\<close>; host \<^verbatim>\<open>c\<close> answers 404.
\<close>

definition chain_env :: env where
  "chain_env =
     sample_env\<lparr>net := (\<lambda>r. if req_hostname r = ''a'' \<and> req_path r = ''/''
                               then Reply 302 (Some ''/b'') None (Inr [])
                             else if req_hostname r = ''a''
                               then Reply 301 (Some ''http://c/'') None (Inr [])
                             else Reply 404 None None (Inr ''not found''))\<rparr>"



section \<open>Properties of the utilities\<close>

lemma sample_parse_example:
  "sample_parse ''https://example.com'' =
     Some \<lparr>protocol = ''https:'', hostname = ''example.com'', port = [], pathname = ''/'',
           search = [], href = ''https://example.com/''\<rparr>"
  by (simp add: sample_parse_def Let_def)

text \<open>
  C10: \<^verbatim>\<open>validateUrl\<close> answers true exactly for the strings that parse as a URL with
  protocol \<^verbatim>\<open>http:\<close> or \<^verbatim>\<open>https:\<close>; for any other string the action of the install
  command ends (exit code 1, or the browser listing when that was asked for) without
  reaching the work of the install.
\<close>

theorem validateUrl_iff_http_and_cli_rejects:
  "(validateUrl env s \<longleftrightarrow>
      (\<exists>u. parseURL env s = Some u \<and> (protocol u = ''http:'' \<or> protocol u = ''https:'')))
   \<and> (\<not> validateUrl env s \<longrightarrow>
        action env s lb work = (if lb then ListedBrowsers else Exited 1)
        \<and> (\<forall>r. action env s lb work \<noteq> Worked r))"
  by (auto simp: validateUrl_def action_def split: option.splits)

theorem validateUrl_iff_http_and_cli_rejects_witness:
  "validateUrl sample_env ''https://example.com''
   \<and> \<not> validateUrl sample_env ''ftp://example.com''
   \<and> action sample_env ''ftp://example.com'' False (\<lambda>u. u) = Exited 1"
  using validateUrl_iff_http_and_cli_rejects [of sample_env "''ftp://example.com''" False "\<lambda>u. u"]
    validateUrl_iff_http_and_cli_rejects [of sample_env "''https://example.com''" False "\<lambda>u. u"]
  by (simp add: sample_env_def sample_parse_def Let_def)

text \<open>
  C8: for a string that parses as a URL the identifier depends on nothing but the parsed
  host name and path: two calls, whatever the clock says at each, return the same string,
  the lower-cased \<^verbatim>\<open>com.webnest.\<close> followed by the host name with dots turned into dashes
  and by at most 20 characters of the path, slashes turned into dashes and everything but
  letters, digits and dashes removed.
\<close>

theorem generateAppId_deterministic:
  assumes "parseURL env s = Some u" and "parseURL env' = parseURL env"
  shows "generateAppId env' s = generateAppId env s
         \<and> generateAppId env s =
             toLowerCase (''com.webnest.'' @ replace_char CHR ''.'' ''-'' (hostname u)
               @ take 20 (filter (\<lambda>c. is_alnum c \<or> c = CHR ''-'')
                            (replace_char CHR ''/'' ''-'' (pathname u))))
         \<and> startsWith (generateAppId env s) ''com.webnest.''"
proof -
  have low: "toLowerCase ''com.webnest.'' = ''com.webnest.''"
    by (simp add: toLowerCase_def lower_char_def upper_chars_def lower_chars_def)
  have pre: "startsWith (''com.webnest.'' @ r) ''com.webnest.''" for r
    by simp
  have app: "toLowerCase (a @ b) = toLowerCase a @ toLowerCase b" for a b
    by (simp add: toLowerCase_def)
  from assms show ?thesis
    by (simp only: generateAppId_def Let_def option.case app low pre simp_thms)
qed

theorem generateAppId_deterministic_witness:
  "generateAppId (sample_env\<lparr>now := 1\<rparr>) ''https://example.com'' =
     generateAppId (sample_env\<lparr>now := 2\<rparr>) ''https://example.com''
   \<and> generateAppId (sample_env\<lparr>now := 2\<rparr>) ''https://example.com'' = ''com.webnest.example-com-''"
proof -
  have p: "parseURL (sample_env\<lparr>now := 2\<rparr>) ''https://example.com'' =
      Some \<lparr>protocol = ''https:'', hostname = ''example.com'', port = [], pathname = ''/'',
            search = [], href = ''https://example.com/''\<rparr>"
    by (simp add: sample_env_def sample_parse_example)
  have q: "parseURL (sample_env\<lparr>now := 1\<rparr>) = parseURL (sample_env\<lparr>now := 2\<rparr>)"
    by (simp add: sample_env_def)
  show ?thesis
    using generateAppId_deterministic [OF p q]
    by (simp add: replace_char_def toLowerCase_def upper_chars_def lower_chars_def lower_char_def is_alnum_def Let_def)
qed

text \<open>For a string that is not a URL the identifier is made from the clock.\<close>

lemma generateAppId_of_unparsable:
  "parseURL env s = None \<Longrightarrow> generateAppId env s = ''com.webnest.app-'' @ show_nat (now env)"
  by (simp add: generateAppId_def)

section \<open>Facts about the fetcher\<close>

lemma fetchUrl_never_settles:
  assumes closed: "\<And>x. x \<in> S \<Longrightarrow> \<exists>x' \<in> S. redirect_step env acc x = Some x'"
    and start: "u \<in> S"
  shows "fetchUrl env u acc = None"
proof (cases "fetchUrl env u acc")
  case None
  then show ?thesis .
next
  case (Some y)
  have "\<not> (env = env \<and> acc = acc \<and> u \<in> S)"
  proof (rule fetchUrl.raw_induct [where P = "\<lambda>e x a y. \<not> (e = env \<and> a = acc \<and> x \<in> S)", OF _ Some])
    fix f e x a y
    assume IH: "\<And>e x a y. f e x a = Some y \<Longrightarrow> \<not> (e = env \<and> a = acc \<and> x \<in> S)"
      and step: "(case parseURL e x of
         None \<Rightarrow> Some (Rejected InvalidURL)
       | Some u \<Rightarrow>
          (case net e (mk_request u a) of
             TimedOut \<Rightarrow> Some (Rejected RequestTimedOut)
           | ConnError m \<Rightarrow> Some (Rejected (NetError m))
           | Reply status location ctype body \<Rightarrow>
               (case redirect_location status location of
                  Some loc \<Rightarrow>
                    (if startsWith loc ''http'' then f e loc a
                     else (case resolveURL e loc x of
                             None \<Rightarrow> Some (Uncaught InvalidURL)
                           | Some r \<Rightarrow> f e (href r) a))
                | None \<Rightarrow>
                    (if status \<noteq> 200 then Some (Rejected (HttpStatus status))
                     else (case body of
                             Inl m \<Rightarrow> Some (Rejected (NetError m))
                           | Inr d \<Rightarrow>
                               Some (Resolved (d, case ctype of Some c \<Rightarrow> c | None \<Rightarrow> []))))))) = Some y"
    show "\<not> (e = env \<and> a = acc \<and> x \<in> S)"
    proof
      assume eq: "e = env \<and> a = acc \<and> x \<in> S"
      then obtain x' where x': "x' \<in> S" "redirect_step env acc x = Some x'"
        using closed by blast
      from step eq x'(2) have "f env x' acc = Some y"
        by (auto simp: redirect_step_def split: option.splits reply.splits if_splits)
      with IH x'(1) show False by blast
    qed
  qed
  with start show ?thesis by simp
qed

lemma fetchUrl_step:
  assumes "redirect_step env acc u = Some u'"
  shows "fetchUrl env u acc = fetchUrl env u' acc"
  using assms
  by (subst fetchUrl.simps)
     (auto simp: redirect_step_def split: option.splits reply.splits if_splits)

lemma fetchUrl_chain:
  "redirect_chain env acc n u = Some u' \<Longrightarrow> fetchUrl env u acc = fetchUrl env u' acc"
proof (induction n arbitrary: u)
  case 0
  then show ?case by simp
next
  case (Suc n)
  then obtain w where w: "redirect_step env acc u = Some w" "redirect_chain env acc n w = Some u'"
    by (auto split: option.splits)
  from fetchUrl_step [OF w(1)] Suc.IH [OF w(2)] show ?case by simp
qed

lemma fetchUrl_final:
  assumes "parseURL env u = Some v" and "net env (mk_request v acc) = Reply status location ctype body"
    and "redirect_location status location = None"
  shows "fetchUrl env u acc =
           (if status \<noteq> 200 then Some (Rejected (HttpStatus status))
            else case body of
                   Inl m \<Rightarrow> Some (Rejected (NetError m))
                 | Inr d \<Rightarrow> Some (Resolved (d, case ctype of Some c \<Rightarrow> c | None \<Rightarrow> [])))"
  using assms by (subst fetchUrl.simps) simp

lemma fetchUrl_invalid: "parseURL env u = None \<Longrightarrow> fetchUrl env u acc = Some (Rejected InvalidURL)"
  by (subst fetchUrl.simps) simp

lemma fetchUrl_no_reply:
  assumes "parseURL env u = Some v"
  shows "net env (mk_request v acc) = TimedOut \<Longrightarrow> fetchUrl env u acc = Some (Rejected RequestTimedOut)"
    and "net env (mk_request v acc) = ConnError m \<Longrightarrow> fetchUrl env u acc = Some (Rejected (NetError m))"
  using assms by (subst fetchUrl.simps, simp)+


section \<open>Facts about sorting and the candidates\<close>











section \<open>Claims about the fetcher\<close>

text \<open>
  What the fetcher does with a reply.  A response with a 3xx status and a non-empty
  Location is followed: a Location beginning with \<^verbatim>\<open>http\<close> is requested as it stands, any
  other is resolved against the URL of the request that received it, and the outcome of
  the fetch is the outcome of the fetch of the target.  This holds along a chain of any
  length: there is no limit on the number of hops.  A response that is not followed
  rejects with the HTTP status error exactly when its status is not 200.
\<close>

lemma fetchUrl_follows_redirects:
  assumes "parseURL env u = Some v"
    and "net env (mk_request v acc) = Reply status location ctype body"
  shows "(\<forall>l. 300 \<le> status \<and> status < 400 \<and> location = Some l \<and> l \<noteq> [] \<and> startsWith l ''http''
            \<longrightarrow> fetchUrl env u acc = fetchUrl env l acc)
       \<and> (\<forall>l r. 300 \<le> status \<and> status < 400 \<and> location = Some l \<and> l \<noteq> []
                \<and> \<not> startsWith l ''http'' \<and> resolveURL env l u = Some r
            \<longrightarrow> fetchUrl env u acc = fetchUrl env (href r) acc)
       \<and> (\<not> (300 \<le> status \<and> status < 400 \<and> (\<exists>l. location = Some l \<and> l \<noteq> []))
            \<longrightarrow> ((\<exists>n. fetchUrl env u acc = Some (Rejected (HttpStatus n))) \<longleftrightarrow> status \<noteq> 200)
                \<and> (status \<noteq> 200 \<longrightarrow> fetchUrl env u acc = Some (Rejected (HttpStatus status))))
       \<and> (\<forall>n u'. redirect_chain env acc n u = Some u' \<longrightarrow> fetchUrl env u acc = fetchUrl env u' acc)"
proof (intro conjI allI impI)
  fix l
  assume h: "300 \<le> status \<and> status < 400 \<and> location = Some l \<and> l \<noteq> [] \<and> startsWith l ''http''"
  then have "redirect_location status location = Some l"
    by (cases l) (simp_all add: redirect_location_def)
  with h have "redirect_step env acc u = Some l"
    using assms by (simp add: redirect_step_def)
  then show "fetchUrl env u acc = fetchUrl env l acc" by (rule fetchUrl_step)
next
  fix l r
  assume h: "300 \<le> status \<and> status < 400 \<and> location = Some l \<and> l \<noteq> []
             \<and> \<not> startsWith l ''http'' \<and> resolveURL env l u = Some r"
  then have "redirect_location status location = Some l"
    by (cases l) (simp_all add: redirect_location_def)
  with h have "redirect_step env acc u = Some (href r)"
    using assms by (simp add: redirect_step_def)
  then show "fetchUrl env u acc = fetchUrl env (href r) acc" by (rule fetchUrl_step)
next
  assume h: "\<not> (300 \<le> status \<and> status < 400 \<and> (\<exists>l. location = Some l \<and> l \<noteq> []))"
  then have none: "redirect_location status location = None"
    by (auto simp: redirect_location_def split: option.splits list.splits)
  note fin = fetchUrl_final [OF assms none]
  show "(\<exists>n. fetchUrl env u acc = Some (Rejected (HttpStatus n))) \<longleftrightarrow> status \<noteq> 200"
    unfolding fin by (auto split: sum.splits)
next
  assume h: "\<not> (300 \<le> status \<and> status < 400 \<and> (\<exists>l. location = Some l \<and> l \<noteq> []))"
    and ne: "status \<noteq> 200"
  then have none: "redirect_location status location = None"
    by (auto simp: redirect_location_def split: option.splits list.splits)
  from fetchUrl_final [OF assms none] ne
  show "fetchUrl env u acc = Some (Rejected (HttpStatus status))" by simp
next
  fix n u'
  assume "redirect_chain env acc n u = Some u'"
  then show "fetchUrl env u acc = fetchUrl env u' acc" by (rule fetchUrl_chain)
qed

lemma chain_env_parse:
  "parseURL chain_env ''http://a/'' =
     Some \<lparr>protocol = ''http:'', hostname = ''a'', port = [], pathname = ''/'', search = [],
           href = ''http://a/''\<rparr>"
  "parseURL chain_env ''http://c/'' =
     Some \<lparr>protocol = ''http:'', hostname = ''c'', port = [], pathname = ''/'', search = [],
           href = ''http://c/''\<rparr>"
  by (simp_all add: chain_env_def sample_env_def sample_parse_def Let_def)

lemma fetchUrl_follows_redirects_example:
  "redirect_chain chain_env None 2 ''http://a/'' = Some ''http://c/''
   \<and> fetchUrl chain_env ''http://a/'' None = Some (Rejected (HttpStatus 404))"
proof -
  have net_a: "net chain_env (mk_request \<lparr>protocol = ''http:'', hostname = ''a'', port = [],
        pathname = ''/'', search = [], href = ''http://a/''\<rparr> None) = Reply 302 (Some ''/b'') None (Inr [])"
    by (simp add: chain_env_def sample_env_def mk_request_def)
  have net_c: "net chain_env (mk_request \<lparr>protocol = ''http:'', hostname = ''c'', port = [],
        pathname = ''/'', search = [], href = ''http://c/''\<rparr> None) = Reply 404 None None (Inr ''not found'')"
    by (simp add: chain_env_def sample_env_def mk_request_def)
  have chain: "redirect_chain chain_env None 2 ''http://a/'' = Some ''http://c/''"
    by (simp add: numeral_2_eq_2 redirect_step_def chain_env_def sample_env_def sample_parse_def
        sample_resolve_def mk_request_def redirect_location_def Let_def)
  from fetchUrl_follows_redirects [OF chain_env_parse(1) net_a] chain
  have "fetchUrl chain_env ''http://a/'' None = fetchUrl chain_env ''http://c/'' None"
    by blast
  moreover from fetchUrl_follows_redirects [OF chain_env_parse(2) net_c]
  have "fetchUrl chain_env ''http://c/'' None = Some (Rejected (HttpStatus 404))"
    by simp
  ultimately show ?thesis using chain by simp
qed

text \<open>
  C7: a relative Location is to be resolved against the URL of the request that received
  it.  The fetcher takes every Location that begins with \<^verbatim>\<open>http\<close> for an absolute URL: the
  root of the server redirects to the relative reference \<^verbatim>\<open>httpdocs/x\<close>, which resolves to
  a page that is served, but the fetch requests \<^verbatim>\<open>httpdocs/x\<close> as it stands and rejects
  with an invalid URL.
\<close>

theorem fetchUrl_relative_http_location_rejected:
  "net httpdocs_env (mk_request \<lparr>protocol = ''http:'', hostname = ''a'', port = [],
        pathname = ''/'', search = [], href = ''http://a/''\<rparr> None)
     = Reply 302 (Some ''httpdocs/x'') None (Inr [])
   \<and> map_option href (resolveURL httpdocs_env ''httpdocs/x'' ''http://a/'') = Some ''http://a/httpdocs/x''
   \<and> fetchUrl httpdocs_env ''http://a/httpdocs/x'' None = Some (Resolved (''ok'', ''text/html''))
   \<and> fetchUrl httpdocs_env ''http://a/'' None = Some (Rejected InvalidURL)"
proof -
  have p1: "parseURL httpdocs_env ''http://a/'' =
     Some \<lparr>protocol = ''http:'', hostname = ''a'', port = [], pathname = ''/'', search = [],
           href = ''http://a/''\<rparr>"
    by (simp add: httpdocs_env_def sample_env_def sample_parse_def Let_def)
  have p2: "parseURL httpdocs_env ''http://a/httpdocs/x'' =
     Some \<lparr>protocol = ''http:'', hostname = ''a'', port = [], pathname = ''/httpdocs/x'', search = [],
           href = ''http://a/httpdocs/x''\<rparr>"
    by (simp add: httpdocs_env_def sample_env_def sample_parse_def Let_def)
  have p3: "parseURL httpdocs_env ''httpdocs/x'' = None"
    by (simp add: httpdocs_env_def sample_env_def sample_parse_def Let_def)
  have n1: "net httpdocs_env (mk_request \<lparr>protocol = ''http:'', hostname = ''a'', port = [],
        pathname = ''/'', search = [], href = ''http://a/''\<rparr> None)
     = Reply 302 (Some ''httpdocs/x'') None (Inr [])"
    by (simp add: httpdocs_env_def sample_env_def mk_request_def)
  have n2: "net httpdocs_env (mk_request \<lparr>protocol = ''http:'', hostname = ''a'', port = [],
        pathname = ''/httpdocs/x'', search = [], href = ''http://a/httpdocs/x''\<rparr> None)
     = Reply 200 None (Some ''text/html'') (Inr ''ok'')"
    by (simp add: httpdocs_env_def sample_env_def mk_request_def)
  have r: "map_option href (resolveURL httpdocs_env ''httpdocs/x'' ''http://a/'') = Some ''http://a/httpdocs/x''"
    by (simp add: httpdocs_env_def sample_env_def sample_resolve_def sample_parse_def Let_def)
  have f2: "fetchUrl httpdocs_env ''http://a/httpdocs/x'' None = Some (Resolved (''ok'', ''text/html''))"
    using fetchUrl_final [OF p2 n2] by (simp add: redirect_location_def)
  have "redirect_step httpdocs_env None ''http://a/'' = Some ''httpdocs/x''"
    using p1 n1 by (simp add: redirect_step_def redirect_location_def)
  then have "fetchUrl httpdocs_env ''http://a/'' None = fetchUrl httpdocs_env ''httpdocs/x'' None"
    by (rule fetchUrl_step)
  with fetchUrl_invalid [OF p3] have f1: "fetchUrl httpdocs_env ''http://a/'' None = Some (Rejected InvalidURL)"
    by simp
  from n1 r f2 f1 show ?thesis by blast
qed

section \<open>Claims about the download\<close>

text \<open>
  C5 (as amended): the extension is \<^verbatim>\<open>.svg\<close> when the content type mentions svg; otherwise
  \<^verbatim>\<open>.ico\<close> when the content type mentions ico or the URL ends in \<^verbatim>\<open>.ico\<close>; otherwise \<^verbatim>\<open>.jpg\<close>
  when the content type mentions jpeg or jpg; otherwise \<^verbatim>\<open>.svg\<close> when the URL ends in
  \<^verbatim>\<open>.svg\<close>; otherwise \<^verbatim>\<open>.png\<close>.  The content types svg and ico always decide; the suffix
  \<^verbatim>\<open>.ico\<close> of the URL is consulted before a jpeg content type.  The downloaded bytes are
  saved as \<^verbatim>\<open>icon\<close> with that extension in the temporary directory.
\<close>

theorem extension_from_content_type_then_url:
  "(str_includes ct ''svg'' \<longrightarrow> extensionFor ct u = ''.svg'')
   \<and> (\<not> str_includes ct ''svg'' \<and> str_includes ct ''ico'' \<longrightarrow> extensionFor ct u = ''.ico'')
   \<and> (\<not> str_includes ct ''svg'' \<and> endsWith u ''.ico'' \<longrightarrow> extensionFor ct u = ''.ico'')
   \<and> (\<not> str_includes ct ''svg'' \<and> \<not> str_includes ct ''ico'' \<and> \<not> endsWith u ''.ico''
        \<and> (str_includes ct ''jpeg'' \<or> str_includes ct ''jpg'') \<longrightarrow> extensionFor ct u = ''.jpg'')
   \<and> (\<not> str_includes ct ''svg'' \<and> \<not> str_includes ct ''ico'' \<and> \<not> endsWith u ''.ico''
        \<and> \<not> str_includes ct ''jpeg'' \<and> \<not> str_includes ct ''jpg''
        \<longrightarrow> extensionFor ct u = (if endsWith u ''.svg'' then ''.svg'' else ''.png''))
   \<and> (\<forall>d f1 f2. fetchUrl env u None = Some (Resolved (d, ct)) \<and> mkdirp env f tempDir = Inr f1
         \<and> writeFile env f1 (path_join env tempDir (''icon'' @ extensionFor ct u)) d = Inr f2
        \<longrightarrow> downloadIcon env f u tempDir =
              Some (Resolved (Downloaded (path_join env tempDir (''icon'' @ extensionFor ct u))
                                (extensionFor ct u) (length d)), f2))"
  by (simp add: extensionFor_def downloadIcon_def Let_def)

theorem extension_from_content_type_then_url_witness:
  "extensionFor ''image/jpeg'' ''https://example.com/logo'' = ''.jpg''
   \<and> extensionFor ''image/svg+xml'' ''https://example.com/favicon.ico'' = ''.svg''
   \<and> extensionFor ''application/octet-stream'' ''https://example.com/logo.svg'' = ''.svg''
   \<and> extensionFor ''text/plain'' ''https://example.com/logo'' = ''.png''"
proof -
  have a: "\<not> str_includes ''image/jpeg'' ''svg''" "\<not> str_includes ''image/jpeg'' ''ico''"
    "\<not> endsWith ''https://example.com/logo'' ''.ico''" "str_includes ''image/jpeg'' ''jpeg''"
    by (simp_all add: endsWith_def)
  have b: "str_includes ''image/svg+xml'' ''svg''" by simp
  have c: "\<not> str_includes ''application/octet-stream'' ''svg''"
    "\<not> str_includes ''application/octet-stream'' ''ico''"
    "\<not> str_includes ''application/octet-stream'' ''jpeg''"
    "\<not> str_includes ''application/octet-stream'' ''jpg''"
    "\<not> endsWith ''https://example.com/logo.svg'' ''.ico''"
    "endsWith ''https://example.com/logo.svg'' ''.svg''"
    by (simp_all add: endsWith_def)
  have d: "\<not> str_includes ''text/plain'' ''svg''" "\<not> str_includes ''text/plain'' ''ico''"
    "\<not> str_includes ''text/plain'' ''jpeg''" "\<not> str_includes ''text/plain'' ''jpg''"
    "\<not> endsWith ''https://example.com/logo'' ''.svg''"
    by (simp_all add: endsWith_def)
  from extension_from_content_type_then_url [of "''image/jpeg''" "''https://example.com/logo''"] a
  have 1: "extensionFor ''image/jpeg'' ''https://example.com/logo'' = ''.jpg''" by blast
  from extension_from_content_type_then_url [of "''image/svg+xml''" "''https://example.com/favicon.ico''"] b
  have 2: "extensionFor ''image/svg+xml'' ''https://example.com/favicon.ico'' = ''.svg''" by blast
  from extension_from_content_type_then_url [of "''application/octet-stream''" "''https://example.com/logo.svg''"] c
  have 3: "extensionFor ''application/octet-stream'' ''https://example.com/logo.svg'' = ''.svg''" by metis
  from extension_from_content_type_then_url [of "''text/plain''" "''https://example.com/logo''"] a(3) d
  have 4: "extensionFor ''text/plain'' ''https://example.com/logo'' = ''.png''" by metis
  from 1 2 3 4 show ?thesis by blast
qed

text \<open>
  The claim as stated fails for a jpeg response to a URL that ends in \<^verbatim>\<open>.ico\<close>: the content
  type identifies jpeg, the extension chosen is \<^verbatim>\<open>.ico\<close>.
\<close>

theorem jpeg_content_type_ico_url_counterexample:
  "str_includes ''image/jpeg'' ''jpeg''
   \<and> extensionFor ''image/jpeg'' ''https://example.com/favicon.ico'' = ''.ico''
   \<and> extensionFor ''image/jpeg'' ''https://example.com/favicon.ico'' \<noteq> ''.jpg''"
  by (simp add: extensionFor_def endsWith_def)

section \<open>Claims about the icon discovery\<close>

lemma parseManifest_settles:
  "settled (fetchUrl env m (Some ''application/json'')) \<Longrightarrow> \<exists>ms. parseManifest env m = Some (Resolved ms)"
  by (auto simp: settled_def parseManifest_def split: option.splits outcome.splits)

lemma getBestIconUrl_page_rejected:
  assumes "parseURL env s = Some u" and "fetchUrl env s (Some ''text/html'') = Some (Rejected e)"
  shows "getBestIconUrl env s = Some (Resolved (faviconUrl u))"
  using assms by (simp add: getBestIconUrl_def faviconFallback_def)

lemma getBestIconUrl_parse_failed:
  assumes "parseURL env s = Some u" and "fetchUrl env s (Some ''text/html'') = Some (Resolved (html, ct))"
    and "parseIconLinks env html s = Inl e"
  shows "getBestIconUrl env s = Some (Resolved (faviconUrl u))"
  using assms by (simp add: getBestIconUrl_def faviconFallback_def)

lemma getBestIconUrl_candidates:
  assumes "parseURL env s = Some u" and "fetchUrl env s (Some ''text/html'') = Some (Resolved (html, ct))"
    and "parseIconLinks env html s = Inr (icons, m)"
    and "manifestIconsOf env m = Some (Resolved ms)"
  shows "getBestIconUrl env s =
           Some (Resolved (case sortByPriority (icons @ ms) of
                             [] \<Rightarrow> faviconUrl u | best # rest \<Rightarrow> icon_href best))"
  using assms by (simp add: getBestIconUrl_def faviconFallback_def split: list.splits)

lemma getBestIconUrl_not_rejected:
  assumes "parseURL env s = Some u"
  shows "getBestIconUrl env s \<noteq> Some (Rejected e)"
  using assms
  by (auto simp: getBestIconUrl_def faviconFallback_def
      split: option.splits outcome.splits sum.splits list.splits)

text \<open>
  C2 (as amended): for a page URL that parses, icon discovery never rejects.  When the
  fetch of the page rejects, or the page holds a reference that does not resolve, it
  returns the favicon of the host; when the page was fetched and the manifest step has
  settled it returns the first candidate of the sorted list, or the favicon of the host
  when there is no candidate.  It returns a URL whenever the fetch of the page settles and
  the fetch of the manifest, if the page names one, settles as well.
\<close>

theorem getBestIconUrl_returns_candidate_or_favicon:
  assumes "parseURL env s = Some u"
  shows "(\<forall>e. getBestIconUrl env s \<noteq> Some (Rejected e))
       \<and> (\<forall>e. fetchUrl env s (Some ''text/html'') = Some (Rejected e)
            \<longrightarrow> getBestIconUrl env s = Some (Resolved (faviconUrl u)))
       \<and> (\<forall>html ct e. fetchUrl env s (Some ''text/html'') = Some (Resolved (html, ct))
                \<and> parseIconLinks env html s = Inl e
            \<longrightarrow> getBestIconUrl env s = Some (Resolved (faviconUrl u)))
       \<and> (\<forall>html ct icons m ms. fetchUrl env s (Some ''text/html'') = Some (Resolved (html, ct))
                \<and> parseIconLinks env html s = Inr (icons, m)
                \<and> manifestIconsOf env m = Some (Resolved ms)
            \<longrightarrow> getBestIconUrl env s =
                  Some (Resolved (case sortByPriority (icons @ ms) of
                                    [] \<Rightarrow> faviconUrl u | best # rest \<Rightarrow> icon_href best)))
       \<and> (settled (fetchUrl env s (Some ''text/html''))
          \<and> (\<forall>html ct icons m. fetchUrl env s (Some ''text/html'') = Some (Resolved (html, ct))
                \<and> parseIconLinks env html s = Inr (icons, Some m)
               \<longrightarrow> settled (fetchUrl env m (Some ''application/json'')))
            \<longrightarrow> (\<exists>r. getBestIconUrl env s = Some (Resolved r)))"
proof (intro conjI allI impI)
  fix e show "getBestIconUrl env s \<noteq> Some (Rejected e)"
    using assms by (rule getBestIconUrl_not_rejected)
next
  fix e assume "fetchUrl env s (Some ''text/html'') = Some (Rejected e)"
  with assms show "getBestIconUrl env s = Some (Resolved (faviconUrl u))"
    by (rule getBestIconUrl_page_rejected)
next
  fix html ct e
  assume "fetchUrl env s (Some ''text/html'') = Some (Resolved (html, ct)) \<and> parseIconLinks env html s = Inl e"
  with assms show "getBestIconUrl env s = Some (Resolved (faviconUrl u))"
    using getBestIconUrl_parse_failed by blast
next
  fix html ct icons m ms
  assume "fetchUrl env s (Some ''text/html'') = Some (Resolved (html, ct))
          \<and> parseIconLinks env html s = Inr (icons, m) \<and> manifestIconsOf env m = Some (Resolved ms)"
  with assms show "getBestIconUrl env s =
      Some (Resolved (case sortByPriority (icons @ ms) of [] \<Rightarrow> faviconUrl u | best # rest \<Rightarrow> icon_href best))"
    using getBestIconUrl_candidates by blast
next
  assume h: "settled (fetchUrl env s (Some ''text/html''))
     \<and> (\<forall>html ct icons m. fetchUrl env s (Some ''text/html'') = Some (Resolved (html, ct))
           \<and> parseIconLinks env html s = Inr (icons, Some m)
          \<longrightarrow> settled (fetchUrl env m (Some ''application/json'')))"
  then consider (rej) e where "fetchUrl env s (Some ''text/html'') = Some (Rejected e)"
    | (res) html ct where "fetchUrl env s (Some ''text/html'') = Some (Resolved (html, ct))"
    by (auto simp: settled_def split: option.splits outcome.splits)
  then show "\<exists>r. getBestIconUrl env s = Some (Resolved r)"
  proof cases
    case rej
    with assms getBestIconUrl_page_rejected show ?thesis by blast
  next
    case res
    show ?thesis
    proof (cases "parseIconLinks env html s")
      case (Inl e)
      with assms res getBestIconUrl_parse_failed show ?thesis by blast
    next
      case (Inr p)
      obtain icons m where p: "p = (icons, m)" by (cases p)
      have "\<exists>ms. manifestIconsOf env m = Some (Resolved ms)"
      proof (cases m)
        case None
        then show ?thesis by (simp add: manifestIconsOf_def)
      next
        case (Some mu)
        with h res Inr p have "settled (fetchUrl env mu (Some ''application/json''))" by blast
        from parseManifest_settles [OF this] Some show ?thesis by (simp add: manifestIconsOf_def)
      qed
      then obtain ms where "manifestIconsOf env m = Some (Resolved ms)" by blast
      with assms res Inr p getBestIconUrl_candidates show ?thesis by blast
    qed
  qed
qed

lemma sample_env_fetch_rejected:
  "fetchUrl sample_env ''https://example.com'' acc = Some (Rejected (NetError ''getaddrinfo ENOTFOUND''))"
proof -
  have p: "parseURL sample_env ''https://example.com'' =
     Some \<lparr>protocol = ''https:'', hostname = ''example.com'', port = [], pathname = ''/'',
           search = [], href = ''https://example.com/''\<rparr>"
    by (simp add: sample_env_def sample_parse_example)
  show ?thesis
    by (rule fetchUrl_no_reply(2) [OF p]) (simp add: sample_env_def)
qed

theorem getBestIconUrl_returns_candidate_or_favicon_witness:
  "getBestIconUrl sample_env ''https://example.com'' = Some (Resolved ''https://example.com/favicon.ico'')"
proof -
  have p: "parseURL sample_env ''https://example.com'' =
     Some \<lparr>protocol = ''https:'', hostname = ''example.com'', port = [], pathname = ''/'',
           search = [], href = ''https://example.com/''\<rparr>"
    by (simp add: sample_env_def sample_parse_example)
  from getBestIconUrl_returns_candidate_or_favicon [OF p] sample_env_fetch_rejected
  show ?thesis by (simp add: faviconUrl_def)
qed

text \<open>
  The claim as stated fails when the redirects never end: the page URL is valid, every
  request is answered by a redirect to \<^verbatim>\<open>/\<close>, and discovery returns nothing at all.
\<close>

theorem getBestIconUrl_redirect_loop_counterexample:
  "validateUrl loop_env ''http://a/'' \<and> getBestIconUrl loop_env ''http://a/'' = None"
proof -
  have step: "redirect_step loop_env (Some ''text/html'') ''http://a/'' = Some ''http://a/''"
    by (simp add: redirect_step_def loop_env_def sample_env_def sample_parse_def sample_resolve_def
        Let_def mk_request_def redirect_location_def)
  have "fetchUrl loop_env ''http://a/'' (Some ''text/html'') = None"
    by (rule fetchUrl_never_settles [where S = "{''http://a/''}"]) (use step in auto)
  moreover have "validateUrl loop_env ''http://a/''"
    by (simp add: validateUrl_def loop_env_def sample_env_def sample_parse_def Let_def)
  ultimately show ?thesis by (simp add: getBestIconUrl_def)
qed





section \<open>Facts about the file system\<close>

lemma map_of_fs_update: "map_of (fs_update p n f) q = (if q = p then Some n else map_of f q)"
proof (cases "map_of f p")
  case None
  then show ?thesis by (auto simp: fs_update_def map_add_def split: option.splits)
next
  case (Some a)
  have "map_of (map (\<lambda>(q, m). if q = p then (q, n) else (q, m)) f) q
          = (if q = p then map_option (\<lambda>_. n) (map_of f q) else map_of f q)" for q
    by (induction f) auto
  with Some show ?thesis by (auto simp: fs_update_def)
qed





section \<open>Facts about the icon server of the examples\<close>

lemma example_urls:
  "sample_parse ''https://example.com/favicon.ico'' =
     Some \<lparr>protocol = ''https:'', hostname = ''example.com'', port = [],
           pathname = ''/favicon.ico'', search = [], href = ''https://example.com/favicon.ico''\<rparr>"
  by (simp add: sample_parse_def Let_def)

lemma icon_server_fetch:
  assumes "parseURL env = sample_parse" and "net env = icon_server"
  shows "fetchUrl env ''https://example.com'' acc = Some (Resolved (''PNG'', ''image/png''))"
    and "fetchUrl env ''https://example.com/favicon.ico'' acc = Some (Resolved (''PNG'', ''image/png''))"
proof -
  have p1: "parseURL env ''https://example.com'' = Some \<lparr>protocol = ''https:'', hostname = ''example.com'',
      port = [], pathname = ''/'', search = [], href = ''https://example.com/''\<rparr>"
    by (simp add: assms sample_parse_example)
  have p2: "parseURL env ''https://example.com/favicon.ico'' = Some \<lparr>protocol = ''https:'',
      hostname = ''example.com'', port = [], pathname = ''/favicon.ico'', search = [],
      href = ''https://example.com/favicon.ico''\<rparr>"
    by (simp add: assms example_urls)
  have n: "net env r = Reply 200 None (Some ''image/png'') (Inr ''PNG'')" for r
    by (simp add: assms icon_server_def)
  from fetchUrl_final [OF p1 n] show "fetchUrl env ''https://example.com'' acc = Some (Resolved (''PNG'', ''image/png''))"
    by (simp add: redirect_location_def)
  from fetchUrl_final [OF p2 n] show "fetchUrl env ''https://example.com/favicon.ico'' acc = Some (Resolved (''PNG'', ''image/png''))"
    by (simp add: redirect_location_def)
qed

lemma no_links_in_PNG: "parseIconLinks env ''PNG'' base = Inr ([], None)"
  by (simp add: parseIconLinks_def link_re_def manifest_re_def attr_re_def ci_def first_group_def)

lemma icon_server_best:
  assumes "parseURL env = sample_parse" and "net env = icon_server"
  shows "getBestIconUrl env ''https://example.com'' = Some (Resolved ''https://example.com/favicon.ico'')"
proof -
  have p1: "parseURL env ''https://example.com'' = Some \<lparr>protocol = ''https:'', hostname = ''example.com'',
      port = [], pathname = ''/'', search = [], href = ''https://example.com/''\<rparr>"
    by (simp add: assms sample_parse_example)
  have m: "manifestIconsOf env None = Some (Resolved [])" by (simp add: manifestIconsOf_def)
  from getBestIconUrl_candidates [OF p1 icon_server_fetch(1) [OF assms] no_links_in_PNG m]
  show ?thesis by (simp add: sortByPriority_def faviconUrl_def)
qed

section \<open>Claims about the temporary directory\<close>


lemma prepareIcon_after_download:
  assumes "getBestIconUrl env u = Some (Resolved iconUrl)"
    and "downloadIcon env f iconUrl (path_join env outputDir ''.icon-temp'')
           = Some (Resolved (Downloaded p ext n), f1)"
  shows "prepareIcon env f u outputDir plat =
           (case convertForPlatform env f1 plat outputDir (path_join env outputDir ''.icon-temp'') p ext of
              Inl (e, f2) \<Rightarrow> Some (Rejected e, f2)
            | Inr (result, f2) \<Rightarrow>
                Some (Resolved result,
                      snd (shell env (rm_rf_command (path_join env outputDir ''.icon-temp'')) f2)))"
  using assms by (simp add: prepareIcon_def Let_def)






lemma windows_env_fields:
  "parseURL windows_env = sample_parse" "net windows_env = icon_server"
  "shell windows_env = (\<lambda>_ f. (Some (ExecError ''command not found''), f))"
  "path_join windows_env = (\<lambda>a b. a @ ''/'' @ b)" "fails windows_env = (\<lambda>_. None)"
  by (simp_all add: windows_env_def sample_env_def)

lemma windows_env_download:
  "downloadIcon windows_env [] ''https://example.com/favicon.ico'' (path_join windows_env ''C:/Apps'' ''.icon-temp'')
     = Some (Resolved (Downloaded ''C:/Apps/.icon-temp/icon.ico'' ''.ico'' 3),
             [(''C:/Apps/.icon-temp'', Dir), (''C:/Apps/.icon-temp/icon.ico'', File ''PNG'')])"
  by (simp add: downloadIcon_def icon_server_fetch(2) [OF windows_env_fields(1,2)] windows_env_fields
      extensionFor_def endsWith_def mkdirp_def writeFile_def refused_def fs_update_def Let_def)


section \<open>Claims about transcoding without conversion tools\<close>

lemma copyFileSync_verbatim:
  "copyFileSync env g src dst = Inr g' \<Longrightarrow> map_of g' dst = map_of g src \<and> (\<exists>d. map_of g src = Some (File d))"
  by (auto simp: copyFileSync_def map_of_fs_update split: option.splits node.splits)

lemma convertToIco_no_which:
  assumes "shell env ''which convert'' f = (Some e, g)"
  shows "convertToIco env f p ico =
           (case copyFileSync env g p (replace_first ''.ico'' ''.png'' ico) of
              Inr g' \<Rightarrow> (IconOk (replace_first ''.ico'' ''.png'' ico) (Some png_note), g')
            | Inl e' \<Rightarrow> (IconFailed (message e'), g))"
  using assms by (simp add: convertToIco_def Let_def)

text \<open>
  C6 (as amended): with no conversion tool at hand, transcoding a downloaded icon returns a
  success whenever the fallback copy of the file succeeds: on Linux the result is
  \<^verbatim>\<open>icon.png\<close> in the output directory, a verbatim copy of the download; on Windows it is
  the path of \<^verbatim>\<open>app.ico\<close> with \<^verbatim>\<open>.ico\<close> replaced by \<^verbatim>\<open>.png\<close>, with the note.  When the copy
  fails, Windows returns \<^verbatim>\<open>{success: false}\<close> and on Linux the exception leaves prepareIcon.
\<close>

theorem zero_tools_fall_back_to_copy:
  assumes "getBestIconUrl env u = Some (Resolved iconUrl)"
    and "downloadIcon env f iconUrl (path_join env outputDir ''.icon-temp'')
           = Some (Resolved (Downloaded p ext n), f1)"
  shows "(\<forall>e g g'. ext \<noteq> ''.png''
             \<and> shell env (png_convert_command p (path_join env outputDir ''icon.png'')) f1 = (Some e, g)
             \<and> copyFileSync env g p (path_join env outputDir ''icon.png'') = Inr g'
            \<longrightarrow> prepareIcon env f u outputDir ''linux'' =
                  Some (Resolved (IconOk (path_join env outputDir ''icon.png'') None),
                        snd (shell env (rm_rf_command (path_join env outputDir ''.icon-temp'')) g'))
                \<and> map_of g' (path_join env outputDir ''icon.png'') = map_of g p)
       \<and> (\<forall>g'. ext = ''.png'' \<and> copyFileSync env f1 p (path_join env outputDir ''icon.png'') = Inr g'
            \<longrightarrow> prepareIcon env f u outputDir ''linux'' =
                  Some (Resolved (IconOk (path_join env outputDir ''icon.png'') None),
                        snd (shell env (rm_rf_command (path_join env outputDir ''.icon-temp'')) g'))
                \<and> map_of g' (path_join env outputDir ''icon.png'') = map_of f1 p)
       \<and> (\<forall>e g g'. shell env ''which convert'' f1 = (Some e, g)
             \<and> copyFileSync env g p (replace_first ''.ico'' ''.png'' (path_join env outputDir ''app.ico'')) = Inr g'
            \<longrightarrow> prepareIcon env f u outputDir ''win32'' =
                  Some (Resolved (IconOk (replace_first ''.ico'' ''.png'' (path_join env outputDir ''app.ico''))
                                    (Some png_note)),
                        snd (shell env (rm_rf_command (path_join env outputDir ''.icon-temp'')) g'))
                \<and> map_of g' (replace_first ''.ico'' ''.png'' (path_join env outputDir ''app.ico'')) = map_of g p)
       \<and> (\<forall>e g e'. shell env ''which convert'' f1 = (Some e, g)
             \<and> copyFileSync env g p (replace_first ''.ico'' ''.png'' (path_join env outputDir ''app.ico'')) = Inl e'
            \<longrightarrow> prepareIcon env f u outputDir ''win32'' =
                  Some (Resolved (IconFailed (message e')),
                        snd (shell env (rm_rf_command (path_join env outputDir ''.icon-temp'')) g)))
       \<and> (\<forall>e g e'. ext \<noteq> ''.png''
             \<and> shell env (png_convert_command p (path_join env outputDir ''icon.png'')) f1 = (Some e, g)
             \<and> copyFileSync env g p (path_join env outputDir ''icon.png'') = Inl e'
            \<longrightarrow> prepareIcon env f u outputDir ''linux'' = Some (Rejected e', g))"
proof -
  have c1: "(\<forall>e g g'. ext \<noteq> ''.png''
             \<and> shell env (png_convert_command p (path_join env outputDir ''icon.png'')) f1 = (Some e, g)
             \<and> copyFileSync env g p (path_join env outputDir ''icon.png'') = Inr g'
            \<longrightarrow> prepareIcon env f u outputDir ''linux'' =
                  Some (Resolved (IconOk (path_join env outputDir ''icon.png'') None),
                        snd (shell env (rm_rf_command (path_join env outputDir ''.icon-temp'')) g'))
                \<and> map_of g' (path_join env outputDir ''icon.png'') = map_of g p)"
  proof (intro allI impI)

  fix e g g'
  assume h: "ext \<noteq> ''.png''
             \<and> shell env (png_convert_command p (path_join env outputDir ''icon.png'')) f1 = (Some e, g)
             \<and> copyFileSync env g p (path_join env outputDir ''icon.png'') = Inr g'"
  then have "convertForPlatform env f1 ''linux'' outputDir (path_join env outputDir ''.icon-temp'') p ext
               = Inr (IconOk (path_join env outputDir ''icon.png'') None, g')"
    by (simp add: convertForPlatform_def Let_def)
  with prepareIcon_after_download [OF assms, of "''linux''"] copyFileSync_verbatim h
  show "prepareIcon env f u outputDir ''linux'' =
                  Some (Resolved (IconOk (path_join env outputDir ''icon.png'') None),
                        snd (shell env (rm_rf_command (path_join env outputDir ''.icon-temp'')) g'))
                \<and> map_of g' (path_join env outputDir ''icon.png'') = map_of g p"
    by auto
  qed
  have c2: "(\<forall>g'. ext = ''.png'' \<and> copyFileSync env f1 p (path_join env outputDir ''icon.png'') = Inr g'
            \<longrightarrow> prepareIcon env f u outputDir ''linux'' =
                  Some (Resolved (IconOk (path_join env outputDir ''icon.png'') None),
                        snd (shell env (rm_rf_command (path_join env outputDir ''.icon-temp'')) g'))
                \<and> map_of g' (path_join env outputDir ''icon.png'') = map_of f1 p)"
  proof (intro allI impI)
  fix g'
  assume h: "ext = ''.png'' \<and> copyFileSync env f1 p (path_join env outputDir ''icon.png'') = Inr g'"
  then have "convertForPlatform env f1 ''linux'' outputDir (path_join env outputDir ''.icon-temp'') p ext
               = Inr (IconOk (path_join env outputDir ''icon.png'') None, g')"
    by (simp add: convertForPlatform_def Let_def)
  with prepareIcon_after_download [OF assms, of "''linux''"] copyFileSync_verbatim h
  show "prepareIcon env f u outputDir ''linux'' =
                  Some (Resolved (IconOk (path_join env outputDir ''icon.png'') None),
                        snd (shell env (rm_rf_command (path_join env outputDir ''.icon-temp'')) g'))
                \<and> map_of g' (path_join env outputDir ''icon.png'') = map_of f1 p"
    by auto
  qed
  have c3: "(\<forall>e g g'. shell env ''which convert'' f1 = (Some e, g)
             \<and> copyFileSync env g p (replace_first ''.ico'' ''.png'' (path_join env outputDir ''app.ico'')) = Inr g'
            \<longrightarrow> prepareIcon env f u outputDir ''win32'' =
                  Some (Resolved (IconOk (replace_first ''.ico'' ''.png'' (path_join env outputDir ''app.ico''))
                                    (Some png_note)),
                        snd (shell env (rm_rf_command (path_join env outputDir ''.icon-temp'')) g'))
                \<and> map_of g' (replace_first ''.ico'' ''.png'' (path_join env outputDir ''app.ico'')) = map_of g p)"
  proof (intro allI impI)
  fix e g g'
  assume h: "shell env ''which convert'' f1 = (Some e, g)
             \<and> copyFileSync env g p (replace_first ''.ico'' ''.png'' (path_join env outputDir ''app.ico'')) = Inr g'"
  then have "convertForPlatform env f1 ''win32'' outputDir (path_join env outputDir ''.icon-temp'') p ext
               = Inr (IconOk (replace_first ''.ico'' ''.png'' (path_join env outputDir ''app.ico'')) (Some png_note), g')"
    by (simp add: convertForPlatform_def convertToIco_no_which)
  with prepareIcon_after_download [OF assms, of "''win32''"] copyFileSync_verbatim h
  show "prepareIcon env f u outputDir ''win32'' =
                  Some (Resolved (IconOk (replace_first ''.ico'' ''.png'' (path_join env outputDir ''app.ico''))
                                    (Some png_note)),
                        snd (shell env (rm_rf_command (path_join env outputDir ''.icon-temp'')) g'))
                \<and> map_of g' (replace_first ''.ico'' ''.png'' (path_join env outputDir ''app.ico'')) = map_of g p"
    by auto
  qed
  have c4: "(\<forall>e g e'. shell env ''which convert'' f1 = (Some e, g)
             \<and> copyFileSync env g p (replace_first ''.ico'' ''.png'' (path_join env outputDir ''app.ico'')) = Inl e'
            \<longrightarrow> prepareIcon env f u outputDir ''win32'' =
                  Some (Resolved (IconFailed (message e')),
                        snd (shell env (rm_rf_command (path_join env outputDir ''.icon-temp'')) g)))"
  proof (intro allI impI)
  fix e g e'
  assume h: "shell env ''which convert'' f1 = (Some e, g)
             \<and> copyFileSync env g p (replace_first ''.ico'' ''.png'' (path_join env outputDir ''app.ico'')) = Inl e'"
  then have "convertForPlatform env f1 ''win32'' outputDir (path_join env outputDir ''.icon-temp'') p ext
               = Inr (IconFailed (message e'), g)"
    by (simp add: convertForPlatform_def convertToIco_no_which)
  with prepareIcon_after_download [OF assms, of "''win32''"]
  show "prepareIcon env f u outputDir ''win32'' =
                  Some (Resolved (IconFailed (message e')),
                        snd (shell env (rm_rf_command (path_join env outputDir ''.icon-temp'')) g))"
    by simp
  qed
  have c5: "(\<forall>e g e'. ext \<noteq> ''.png''
             \<and> shell env (png_convert_command p (path_join env outputDir ''icon.png'')) f1 = (Some e, g)
             \<and> copyFileSync env g p (path_join env outputDir ''icon.png'') = Inl e'
            \<longrightarrow> prepareIcon env f u outputDir ''linux'' = Some (Rejected e', g))"
  proof (intro allI impI)
  fix e g e'
  assume h: "ext \<noteq> ''.png''
             \<and> shell env (png_convert_command p (path_join env outputDir ''icon.png'')) f1 = (Some e, g)
             \<and> copyFileSync env g p (path_join env outputDir ''icon.png'') = Inl e'"
  then have "convertForPlatform env f1 ''linux'' outputDir (path_join env outputDir ''.icon-temp'') p ext
               = Inl (e', g)"
    by (simp add: convertForPlatform_def Let_def)
  with prepareIcon_after_download [OF assms, of "''linux''"]
  show "prepareIcon env f u outputDir ''linux'' = Some (Rejected e', g)" by simp
  qed
  from c1 c2 c3 c4 c5 show ?thesis by blast
qed

theorem zero_tools_fall_back_to_copy_witness:
  "prepareIcon windows_env [] ''https://example.com'' ''C:/Apps'' ''win32''
     = Some (Resolved (IconOk ''C:/Apps/app.png'' (Some png_note)),
             [(''C:/Apps/.icon-temp'', Dir), (''C:/Apps/.icon-temp/icon.ico'', File ''PNG''),
              (''C:/Apps/app.png'', File ''PNG'')])"
proof -
  let ?f1 = "[(''C:/Apps/.icon-temp'', Dir), (''C:/Apps/.icon-temp/icon.ico'', File ''PNG'')]"
  note best = icon_server_best [OF windows_env_fields(1,2)]
  have which: "shell windows_env ''which convert'' ?f1 = (Some (ExecError ''command not found''), ?f1)"
    by (simp add: windows_env_fields)
  have copy: "copyFileSync windows_env ?f1 ''C:/Apps/.icon-temp/icon.ico''
                (replace_first ''.ico'' ''.png'' (path_join windows_env ''C:/Apps'' ''app.ico''))
              = Inr (?f1 @ [(''C:/Apps/app.png'', File ''PNG'')])"
    by (simp add: windows_env_fields copyFileSync_def refused_def fs_update_def)
  from zero_tools_fall_back_to_copy [OF best windows_env_download] which copy
  have "prepareIcon windows_env [] ''https://example.com'' ''C:/Apps'' ''win32'' =
          Some (Resolved (IconOk (replace_first ''.ico'' ''.png'' (path_join windows_env ''C:/Apps'' ''app.ico''))
                            (Some png_note)),
                snd (shell windows_env (rm_rf_command (path_join windows_env ''C:/Apps'' ''.icon-temp''))
                       (?f1 @ [(''C:/Apps/app.png'', File ''PNG'')])))"
    by blast
  then show ?thesis by (simp add: windows_env_fields)
qed

lemma readonly_env_fields:
  "parseURL readonly_env = sample_parse" "net readonly_env = icon_server"
  "shell readonly_env = (\<lambda>_ f. (Some (ExecError ''command not found''), f))"
  "path_join readonly_env = (\<lambda>a b. a @ ''/'' @ b)"
  "fails readonly_env = (\<lambda>op. case op of OpCopy a b \<Rightarrow> Some ''EACCES'' | _ \<Rightarrow> None)"
  by (simp_all add: readonly_env_def windows_env_def sample_env_def)

text \<open>
  The claim as stated fails where the fallback copy fails: no tool is at hand, the icon was
  downloaded, the disk refuses the copy, and transcoding on Windows returns a failure.
\<close>

theorem zero_tools_copy_refused_counterexample:
  "downloadIcon readonly_env [] ''https://example.com/favicon.ico'' (path_join readonly_env ''C:/Apps'' ''.icon-temp'')
     = Some (Resolved (Downloaded ''C:/Apps/.icon-temp/icon.ico'' ''.ico'' 3),
             [(''C:/Apps/.icon-temp'', Dir), (''C:/Apps/.icon-temp/icon.ico'', File ''PNG'')])
   \<and> prepareIcon readonly_env [] ''https://example.com'' ''C:/Apps'' ''win32''
     = Some (Resolved (IconFailed ''EACCES''),
             [(''C:/Apps/.icon-temp'', Dir), (''C:/Apps/.icon-temp/icon.ico'', File ''PNG'')])"
proof -
  note best = icon_server_best [OF readonly_env_fields(1,2)]
  have dl: "downloadIcon readonly_env [] ''https://example.com/favicon.ico'' (path_join readonly_env ''C:/Apps'' ''.icon-temp'')
     = Some (Resolved (Downloaded ''C:/Apps/.icon-temp/icon.ico'' ''.ico'' 3),
             [(''C:/Apps/.icon-temp'', Dir), (''C:/Apps/.icon-temp/icon.ico'', File ''PNG'')])"
    by (simp add: downloadIcon_def icon_server_fetch(2) [OF readonly_env_fields(1,2)] readonly_env_fields
        extensionFor_def endsWith_def mkdirp_def writeFile_def refused_def fs_update_def Let_def)
  have conv: "convertForPlatform readonly_env
        [(''C:/Apps/.icon-temp'', Dir), (''C:/Apps/.icon-temp/icon.ico'', File ''PNG'')]
        ''win32'' ''C:/Apps'' (path_join readonly_env ''C:/Apps'' ''.icon-temp'')
        ''C:/Apps/.icon-temp/icon.ico'' ''.ico''
      = Inr (IconFailed ''EACCES'',
             [(''C:/Apps/.icon-temp'', Dir), (''C:/Apps/.icon-temp/icon.ico'', File ''PNG'')])"
    by (simp add: convertForPlatform_def convertToIco_def readonly_env_fields
        copyFileSync_def refused_def Let_def)
  have "prepareIcon readonly_env [] ''https://example.com'' ''C:/Apps'' ''win32''
     = Some (Resolved (IconFailed ''EACCES''),
             [(''C:/Apps/.icon-temp'', Dir), (''C:/Apps/.icon-temp/icon.ico'', File ''PNG'')])"
    unfolding prepareIcon_after_download [OF best dl] conv
    by (simp add: readonly_env_fields)
  with dl show ?thesis by simp
qed

section \<open>Claims about the installer\<close>





lemma finishLinuxIcon_failed:
  "iconPipelineFailed r \<Longrightarrow> finishLinuxIcon env iconDir appId (r, f) = (''web-browser'', iconNoteText, f)"
  by (auto simp: iconPipelineFailed_def finishLinuxIcon_def split: outcome.splits icon_result.splits)

lemma finishMacIcon_failed:
  "iconPipelineFailed r \<Longrightarrow> finishMacIcon env resourcesPath (r, f) = (iconNoteText, f)"
  by (auto simp: iconPipelineFailed_def finishMacIcon_def split: outcome.splits icon_result.splits)












section \<open>Claims about removal\<close>

lemma find_none: "(\<forall>x \<in> set xs. \<not> P x) \<Longrightarrow> List.find P xs = None"
  by (simp add: find_None_iff)


lemma sample_env_apps_dir:
  "getWebAppDirectoryById sample_env ''chrome'' = Inr (Some ''/home/u//.local/share/applications'')"
  by (simp add: getWebAppDirectoryById_def directories_def dirOfBrowser_def expandHomePath_def
      browser_ids_def sample_env_def)


lemma sanitize_Foo: "sanitizeAppName ''Foo'' = ''Foo''"
  by (simp add: sanitizeAppName_def illegal_name_char_def is_space_def trim_def)




text \<open>
  On Linux the search accepts any file whose name contains \<^verbatim>\<open>webnest\<close> and whose content
  contains \<^verbatim>\<open>WebNest\<close>: with the entry of another site installed, removing a name that was
  never installed deletes that entry.
\<close>

lemma uninstall_linux_takes_other_entry:
  "uninstallWebApp sample_env github_installed ''Foo'' ''chrome'' =
     (Resolved (Removed ''/home/u//.local/share/applications/com.webnest.github-com-.desktop''
                  ''Google Chrome''),
      [(''/home/u//.local/share/applications'', Dir)])"
proof -
  let ?dir = "''/home/u//.local/share/applications''"
  let ?entry = "''com.webnest.github-com-.desktop''"
  have fl: "fails sample_env = (\<lambda>_. None)" "platform sample_env = ''linux''"
    "path_join sample_env = (\<lambda>a b. a @ ''/'' @ b)"
    "shell sample_env = (\<lambda>_ f. (Some (ExecError ''command not found''), f))"
    by (simp_all add: sample_env_def)
  have st: "stat sample_env github_installed ?dir = Inr Dir"
    by (simp add: stat_def refused_def fl github_installed_def)
  have ls: "readdir sample_env github_installed ?dir = Inr [?entry]"
    by (simp add: readdir_def refused_def fl github_installed_def children_def child_name_def Let_def)
  have m: "desktopMatches ''Foo'' ?entry"
    by (simp add: desktopMatches_def endsWith_def toLowerCase_def lower_char_def upper_chars_def
        lower_chars_def)
  have rd: "readFileSync sample_env github_installed (?dir @ ''/'' @ ?entry) =
              Inr (desktopContent ''GitHub'' sample_browser ''https://github.com'' ''web-browser'' ''GitHub'')"
    by (simp add: readFileSync_def refused_def fl github_installed_def)
  have inc: "str_includes (desktopContent ''GitHub'' sample_browser ''https://github.com'' ''web-browser'' ''GitHub'') ''WebNest''"
    by (simp add: desktopContent_def unlines_def quoted_def sample_browser_def)
  have found: "findApp sample_env github_installed ?dir ''Foo'' = Inr (Some (?dir @ ''/'' @ ?entry))"
    using ls m rd inc by (simp add: findApp_def findDesktopEntry_def fl)
  have rmv: "rm sample_env github_installed (?dir @ ''/'' @ ?entry) = Inr [(?dir, Dir)]"
    by (simp add: rm_def refused_def fl github_installed_def rm_tree_def within_def)
  show ?thesis
    using sample_env_apps_dir st found rmv
    by (simp add: uninstallWebApp_def Let_def sanitize_Foo fl getBrowserName_def)
qed

end
